theory Spec2Isabelle
  imports Main
begin

section \<open>JavaScript values\<close>

text \<open>
  Documents, filters and query parameters are plain JSON-like JavaScript values.
  An object is the list of its own entries in property order (keys are unique);
  numbers are modelled as integers. A document and a filter never share an object,
  so \<open>===\<close> on two objects or arrays (reference identity) is false.
  Inherited properties other than \<open>length\<close> are not modelled.
\<close>

datatype json =
    JUndefined
  | JNull
  | JBool bool
  | JNum int
  | JStr string
  | JArr "json list"
  | JObj "(string \<times> json) list"

fun truthy :: "json \<Rightarrow> bool" where
  "truthy JUndefined = False"
| "truthy JNull = False"
| "truthy (JBool b) = b"
| "truthy (JNum n) = (n \<noteq> 0)"
| "truthy (JStr s) = (s \<noteq> [])"
| "truthy (JArr xs) = True"
| "truthy (JObj kvs) = True"

text \<open>\<open>typeof v === 'object'\<close> (true of \<open>null\<close> as well).\<close>

fun isObject :: "json \<Rightarrow> bool" where
  "isObject JNull = True"
| "isObject (JArr xs) = True"
| "isObject (JObj kvs) = True"
| "isObject v = False"

fun isArray :: "json \<Rightarrow> bool" where
  "isArray (JArr xs) = True"
| "isArray v = False"

fun isString :: "json \<Rightarrow> bool" where
  "isString (JStr s) = True"
| "isString v = False"

subsection \<open>Decimal strings\<close>

definition digit_char :: "nat \<Rightarrow> char" where
  "digit_char d = char_of (48 + d)"

fun digits_of_nat :: "nat \<Rightarrow> nat \<Rightarrow> string" where
  "digits_of_nat 0 n = []"
| "digits_of_nat (Suc fuel) n =
     (if n < 10 then [digit_char n]
      else digits_of_nat fuel (n div 10) @ [digit_char (n mod 10)])"

text \<open>The decimal numeral of a natural number (\<open>n + 1\<close> digits always suffice).\<close>

definition string_of_nat :: "nat \<Rightarrow> string" where
  "string_of_nat n = digits_of_nat (Suc n) n"

definition string_of_int :: "int \<Rightarrow> string" where
  "string_of_int i = (if i < 0 then CHR ''-'' # string_of_nat (nat (- i)) else string_of_nat (nat i))"

definition is_digit :: "char \<Rightarrow> bool" where
  "is_digit c = (48 \<le> (of_char c :: nat) \<and> (of_char c :: nat) \<le> 57)"

definition nat_of_digits :: "string \<Rightarrow> nat" where
  "nat_of_digits s = foldl (\<lambda>acc c. 10 * acc + ((of_char c :: nat) - 48)) 0 s"

definition is_space :: "char \<Rightarrow> bool" where
  "is_space c = ((of_char c :: nat) \<in> {9, 10, 11, 12, 13, 32})"

definition trim :: "string \<Rightarrow> string" where
  "trim s = rev (dropWhile is_space (rev (dropWhile is_space s)))"

text \<open>
  \<open>Number(s)\<close> on a string, for optionally signed decimal integers and the empty
  string; \<open>None\<close> is \<open>NaN\<close>. Fractions, exponents and hexadecimal literals have no
  integer value and are \<open>None\<close> here.
\<close>

definition str_to_number :: "string \<Rightarrow> int option" where
  "str_to_number s =
     (let t = trim s in
      if t = [] then Some 0
      else if list_all is_digit t then Some (int (nat_of_digits t))
      else (case t of
              c # ds \<Rightarrow>
                if ds \<noteq> [] \<and> list_all is_digit ds \<and> c = CHR ''+'' then Some (int (nat_of_digits ds))
                else if ds \<noteq> [] \<and> list_all is_digit ds \<and> c = CHR ''-'' then Some (- int (nat_of_digits ds))
                else None
            | [] \<Rightarrow> None))"

subsection \<open>Property access\<close>

fun index_entries :: "nat \<Rightarrow> 'a list \<Rightarrow> (string \<times> 'a) list" where
  "index_entries i [] = []"
| "index_entries i (x # xs) = (string_of_nat i, x) # index_entries (Suc i) xs"

text \<open>\<open>Object.entries(v)\<close>.\<close>

fun entries :: "json \<Rightarrow> (string \<times> json) list" where
  "entries (JObj kvs) = kvs"
| "entries (JArr xs) = index_entries 0 xs"
| "entries (JStr s) = index_entries 0 (map (\<lambda>c. JStr [c]) s)"
| "entries v = []"

text \<open>\<open>v[key]\<close> on a value that is neither \<open>null\<close> nor \<open>undefined\<close>.\<close>

fun get_prop :: "json \<Rightarrow> string \<Rightarrow> json" where
  "get_prop (JObj kvs) key = (case map_of kvs key of Some v \<Rightarrow> v | None \<Rightarrow> JUndefined)"
| "get_prop (JArr xs) key =
     (if key = ''length'' then JNum (int (length xs))
      else case map_of (index_entries 0 xs) key of Some v \<Rightarrow> v | None \<Rightarrow> JUndefined)"
| "get_prop (JStr s) key =
     (if key = ''length'' then JNum (int (length s))
      else case map_of (index_entries 0 (map (\<lambda>c. JStr [c]) s)) key of
             Some v \<Rightarrow> v | None \<Rightarrow> JUndefined)"
| "get_prop v key = JUndefined"

text \<open>\<open>path.split('.')\<close>: always at least one segment.\<close>

fun split_on :: "char \<Rightarrow> string \<Rightarrow> string list" where
  "split_on c [] = [[]]"
| "split_on c (x # xs) =
     (if x = c then [] # split_on c xs
      else (case split_on c xs of
              w # ws \<Rightarrow> (x # w) # ws
            | [] \<Rightarrow> [[x]]))"

subsection \<open>Equality and ordering\<close>

text \<open>\<open>a === b\<close>.\<close>

fun strict_eq :: "json \<Rightarrow> json \<Rightarrow> bool" where
  "strict_eq (JArr xs) b = False"
| "strict_eq (JObj kvs) b = False"
| "strict_eq a b = (a = b)"

fun intercalate :: "string \<Rightarrow> string list \<Rightarrow> string" where
  "intercalate sep [] = []"
| "intercalate sep [s] = s"
| "intercalate sep (s # t # ts) = s @ sep @ intercalate sep (t # ts)"

text \<open>\<open>String(v)\<close>; inside \<open>Array.prototype.join\<close>, \<open>null\<close> and \<open>undefined\<close> print as empty.\<close>

fun js_to_string :: "json \<Rightarrow> string" where
  "js_to_string JUndefined = ''undefined''"
| "js_to_string JNull = ''null''"
| "js_to_string (JBool b) = (if b then ''true'' else ''false'')"
| "js_to_string (JNum n) = string_of_int n"
| "js_to_string (JStr s) = s"
| "js_to_string (JArr xs) =
     intercalate '','' (map (\<lambda>x. if x = JUndefined \<or> x = JNull then [] else js_to_string x) xs)"
| "js_to_string (JObj kvs) = ''[object Object]''"

fun to_primitive :: "json \<Rightarrow> json" where
  "to_primitive (JArr xs) = JStr (js_to_string (JArr xs))"
| "to_primitive (JObj kvs) = JStr (js_to_string (JObj kvs))"
| "to_primitive v = v"

text \<open>\<open>Number(v)\<close> on a primitive; \<open>None\<close> is \<open>NaN\<close>.\<close>

fun to_number :: "json \<Rightarrow> int option" where
  "to_number JUndefined = None"
| "to_number JNull = Some 0"
| "to_number (JBool b) = Some (if b then 1 else 0)"
| "to_number (JNum n) = Some n"
| "to_number (JStr s) = str_to_number s"
| "to_number v = None"

fun str_less :: "string \<Rightarrow> string \<Rightarrow> bool" where
  "str_less [] [] = False"
| "str_less [] (y # ys) = True"
| "str_less (x # xs) [] = False"
| "str_less (x # xs) (y # ys) =
     ((of_char x :: nat) < of_char y \<or> (x = y \<and> str_less xs ys))"

text \<open>
  The relational comparison \<open>a < b\<close>: \<open>None\<close> when an operand converts to \<open>NaN\<close>,
  in which case each of \<open><\<close>, \<open><=\<close>, \<open>>\<close>, \<open>>=\<close> is false.
\<close>

definition js_lt :: "json \<Rightarrow> json \<Rightarrow> bool option" where
  "js_lt a b =
     (case (to_primitive a, to_primitive b) of
        (JStr s, JStr t) \<Rightarrow> Some (str_less s t)
      | (pa, pb) \<Rightarrow>
          (case (to_number pa, to_number pb) of
             (Some m, Some n) \<Rightarrow> Some (m < n)
           | _ \<Rightarrow> None))"

definition js_less :: "json \<Rightarrow> json \<Rightarrow> bool" where
  "js_less a b = (js_lt a b = Some True)"

definition js_greater :: "json \<Rightarrow> json \<Rightarrow> bool" where
  "js_greater a b = (js_lt b a = Some True)"

definition js_less_eq :: "json \<Rightarrow> json \<Rightarrow> bool" where
  "js_less_eq a b = (js_lt b a = Some False)"

definition js_greater_eq :: "json \<Rightarrow> json \<Rightarrow> bool" where
  "js_greater_eq a b = (js_lt a b = Some False)"

subsection \<open>Strings\<close>

definition to_lower_char :: "char \<Rightarrow> char" where
  "to_lower_char c =
     (if 65 \<le> (of_char c :: nat) \<and> (of_char c :: nat) \<le> 90 then char_of ((of_char c :: nat) + 32) else c)"

definition toLowerCase :: "string \<Rightarrow> string" where
  "toLowerCase s = map to_lower_char s"

fun starts_with :: "string \<Rightarrow> string \<Rightarrow> bool" where
  "starts_with s [] = True"
| "starts_with [] (y # ys) = False"
| "starts_with (x # xs) (y # ys) = (x = y \<and> starts_with xs ys)"

text \<open>\<open>s.includes(t)\<close>.\<close>

fun str_includes :: "string \<Rightarrow> string \<Rightarrow> bool" where
  "str_includes [] t = (t = [])"
| "str_includes (x # xs) t = (starts_with (x # xs) t \<or> str_includes xs t)"

section \<open>Document matcher (query-matcher.ts)\<close>

definition getNestedValue :: "json \<Rightarrow> string \<Rightarrow> json" where
  "getNestedValue obj path =
     foldl (\<lambda>current key.
              if truthy current \<and> get_prop current key \<noteq> JUndefined
              then get_prop current key else JUndefined)
           obj (split_on CHR ''.'' path)"

definition compareValues :: "json \<Rightarrow> json \<Rightarrow> bool" where
  "compareValues fieldValue expectedValue =
     (if strict_eq fieldValue expectedValue then True
      else if isObject fieldValue \<and> fieldValue \<noteq> JNull \<and> truthy (get_prop fieldValue ''id'')
              \<and> isString expectedValue
        then strict_eq (get_prop fieldValue ''id'') expectedValue
      else if isString fieldValue \<and> isObject expectedValue \<and> expectedValue \<noteq> JNull
              \<and> truthy (get_prop expectedValue ''id'')
        then strict_eq fieldValue (get_prop expectedValue ''id'')
      else strict_eq fieldValue expectedValue)"

text \<open>
  One turn of the \<open>switch\<close> over an operator: \<open>True\<close> when the case reaches its
  \<open>break\<close>, \<open>False\<close> when it returns false (an unknown operator does).
\<close>

definition operatorHolds :: "json \<Rightarrow> string \<Rightarrow> json \<Rightarrow> bool" where
  "operatorHolds fieldValue operator expectedValue =
     (if operator = ''equals'' then compareValues fieldValue expectedValue
      else if operator = ''not_equals'' then \<not> compareValues fieldValue expectedValue
      else if operator = ''in'' then
        \<not> (\<not> isArray expectedValue
           \<or> \<not> list_ex (\<lambda>val. compareValues fieldValue val) (case expectedValue of JArr vs \<Rightarrow> vs | _ \<Rightarrow> []))
      else if operator = ''not_in'' then
        \<not> (isArray expectedValue
           \<and> list_ex (\<lambda>val. compareValues fieldValue val) (case expectedValue of JArr vs \<Rightarrow> vs | _ \<Rightarrow> []))
      else if operator = ''greater_than'' then \<not> js_less_eq fieldValue expectedValue
      else if operator = ''greater_than_equal'' then \<not> js_less fieldValue expectedValue
      else if operator = ''less_than'' then \<not> js_greater_eq fieldValue expectedValue
      else if operator = ''less_than_equal'' then \<not> js_greater fieldValue expectedValue
      else if operator = ''like'' then
        (case (fieldValue, expectedValue) of
           (JStr f, JStr e) \<Rightarrow> str_includes (toLowerCase f) (toLowerCase e)
         | _ \<Rightarrow> False)
      else if operator = ''contains'' then
        (case (fieldValue, expectedValue) of
           (JStr f, JStr e) \<Rightarrow> str_includes f e
         | _ \<Rightarrow> False)
      else if operator = ''exists'' then
        strict_eq (JBool (fieldValue \<noteq> JUndefined \<and> fieldValue \<noteq> JNull)) expectedValue
      else False)"

definition evaluateFieldCondition :: "json \<Rightarrow> string \<Rightarrow> json \<Rightarrow> bool" where
  "evaluateFieldCondition doc fieldPath condition =
     (let fieldValue = getNestedValue doc fieldPath in
      if \<not> isObject condition \<or> condition = JNull then compareValues fieldValue condition
      else list_all (\<lambda>(operator, expectedValue). operatorHolds fieldValue operator expectedValue)
             (entries condition))"

lemma index_entries_snd:
  "(k, v) \<in> set (index_entries i xs) \<Longrightarrow> v \<in> set xs"
  by (induction xs arbitrary: i) auto

lemma size_member:
  "v \<in> set xs \<Longrightarrow> size v < Suc (size_list size xs)"
  by (induction xs) auto

lemma size_map_of:
  "map_of kvs k = Some v \<Longrightarrow> size v < Suc (size_list (size_prod (\<lambda>_. 0) size) kvs)"
  by (induction kvs) (auto split: if_splits)

lemma size_get_prop:
  assumes g: "get_prop wc key = JArr cs"
  shows "size (JArr cs) < size wc"
proof (cases wc)
  case (JArr xs)
  with g have "map_of (index_entries 0 xs) key = Some (JArr cs)"
    by (auto split: if_splits option.splits)
  then have "(key, JArr cs) \<in> set (index_entries 0 xs)"
    by (rule map_of_SomeD)
  then have "JArr cs \<in> set xs"
    by (rule index_entries_snd)
  then show ?thesis using JArr size_member [of "JArr cs" xs] by simp
next
  case (JObj kvs)
  with g have "map_of kvs key = Some (JArr cs)"
    by (auto split: option.splits)
  then show ?thesis using JObj size_map_of [of kvs key "JArr cs"] by simp
next
  case (JStr s)
  with g have "map_of (index_entries 0 (map (\<lambda>c. JStr [c]) s)) key = Some (JArr cs)"
    by (auto split: if_splits option.splits)
  then have "(key, JArr cs) \<in> set (index_entries 0 (map (\<lambda>c. JStr [c]) s))"
    by (rule map_of_SomeD)
  then have "JArr cs \<in> set (map (\<lambda>c. JStr [c]) s)"
    by (rule index_entries_snd)
  then show ?thesis by auto
qed (use g in auto)

lemma size_condition:
  "get_prop wc key = JArr cs \<Longrightarrow> z \<in> set cs \<Longrightarrow> size z < size wc"
  using size_get_prop [of wc key cs] size_member [of z cs] by simp

function evaluateWhereClause :: "json \<Rightarrow> json \<Rightarrow> bool" where
  "evaluateWhereClause doc whereClause =
     (if \<not> truthy whereClause \<or> \<not> isObject whereClause then True
      else (case get_prop whereClause ''and'' of
              JArr conds \<Rightarrow> list_all (\<lambda>condition. evaluateWhereClause doc condition) conds
            | _ \<Rightarrow>
              (case get_prop whereClause ''or'' of
                 JArr conds \<Rightarrow> list_ex (\<lambda>condition. evaluateWhereClause doc condition) conds
               | _ \<Rightarrow>
                 list_all (\<lambda>(fieldPath, condition). evaluateFieldCondition doc fieldPath condition)
                   (entries whereClause))))"
  by pat_completeness auto
termination
  by (relation "measure (\<lambda>(doc, whereClause). size whereClause)")
     (auto intro: size_condition)

text \<open>
  \<open>Object.keys(v).length\<close>.
\<close>

definition keys_length :: "json \<Rightarrow> nat" where
  "keys_length v = length (entries v)"

definition documentMatchesQuery :: "json \<Rightarrow> json \<Rightarrow> bool" where
  "documentMatchesQuery doc subscription =
     (if \<not> truthy (get_prop subscription ''where'') \<or> keys_length (get_prop subscription ''where'') = 0
      then True
      else evaluateWhereClause doc (get_prop subscription ''where''))"

section \<open>Change classifier (incremental-publisher.ts)\<close>

datatype operation = Create | Update | Delete

datatype changeType = Insert | UpdateChange | DeleteChange | Upsert

text \<open>
  The classification block of \<open>publishIncrementalUpdates\<close>: the change type
  (\<open>None\<close> is the source's \<open>null\<close>: no delta) and the document to send
  (\<open>relevantDoc\<close>).
\<close>

definition classifyChange :: "operation \<Rightarrow> json \<Rightarrow> json \<Rightarrow> json \<Rightarrow> changeType option \<times> json" where
  "classifyChange operation doc originalDoc params =
     (case operation of
        Create \<Rightarrow>
          if documentMatchesQuery doc params then (Some Insert, doc) else (None, doc)
      | Update \<Rightarrow>
          (let docMatches = documentMatchesQuery doc params;
               originalMatches =
                 (if truthy originalDoc then documentMatchesQuery originalDoc params else False)
           in if docMatches \<and> originalMatches then (Some UpdateChange, doc)
              else if docMatches \<and> \<not> originalMatches then (Some Upsert, doc)
              else if \<not> docMatches \<and> originalMatches then (Some DeleteChange, originalDoc)
              else (None, doc))
      | Delete \<Rightarrow>
          if truthy originalDoc \<and> documentMatchesQuery originalDoc params
          then (Some DeleteChange, originalDoc) else (None, doc))"

section \<open>Sessions and query subscriptions (actors/subscriptions.ts)\<close>

datatype queryType = Find | FindByID | Count

text \<open>A \<open>Query\<close> of a session; \<open>params\<close> is the object \<open>{ where, sort, limit, populate }\<close>.\<close>

record Query =
  queryKey :: string
  collection :: string
  queryType :: queryType
  params :: json
  lastSyncTime :: nat

record SessionSubscription =
  clientId :: string
  queries :: "Query list"
  lastActivity :: nat

section \<open>Incremental updates for one query (incremental-publisher.ts)\<close>

record queryUpdate =
  update_queryKey :: string
  update_changeType :: changeType
  update_data :: json

text \<open>
  The body of the loop over a session's queries. \<open>populateDocument\<close> reads the
  document store and is a parameter; it is not called for a \<open>delete\<close>.
\<close>

definition relevantUpdate ::
  "(json \<Rightarrow> string \<Rightarrow> json \<Rightarrow> json) \<Rightarrow> string \<Rightarrow> operation \<Rightarrow> json \<Rightarrow> json \<Rightarrow> Query
     \<Rightarrow> queryUpdate option" where
  "relevantUpdate populateDocument changedCollection operation doc originalDoc query =
     (if collection query \<noteq> changedCollection then None
      else if queryType query \<noteq> Find \<and> queryType query \<noteq> FindByID then None
      else (case classifyChange operation doc originalDoc (params query) of
              (None, relevantDoc) \<Rightarrow> None
            | (Some changeType, relevantDoc) \<Rightarrow>
                Some \<lparr> update_queryKey = queryKey query,
                       update_changeType = changeType,
                       update_data =
                         (if changeType \<noteq> DeleteChange \<and> truthy (get_prop (params query) ''populate'')
                          then populateDocument relevantDoc changedCollection
                                 (get_prop (params query) ''populate'')
                          else relevantDoc) \<rparr>))"

definition relevantUpdates ::
  "(json \<Rightarrow> string \<Rightarrow> json \<Rightarrow> json) \<Rightarrow> string \<Rightarrow> operation \<Rightarrow> json \<Rightarrow> json
     \<Rightarrow> SessionSubscription \<Rightarrow> queryUpdate list" where
  "relevantUpdates populateDocument changedCollection operation doc originalDoc session =
     List.map_filter (relevantUpdate populateDocument changedCollection operation doc originalDoc)
       (queries session)"

section \<open>Query fingerprint (utilities/query-hash.ts)\<close>

text \<open>
  A \<open>PayloadQuery\<close> as \<open>createQueryHash\<close> takes it apart:
  \<open>const { type, collection, ...params } = query\<close>. The remaining properties are the
  entries of \<open>q_params\<close>, in the order the caller wrote them.
\<close>

record PayloadQuery =
  q_type :: queryType
  q_collection :: string
  q_params :: "(string \<times> json) list"

fun type_string :: "queryType \<Rightarrow> string" where
  "type_string Find = ''find''"
| "type_string FindByID = ''findByID''"
| "type_string Count = ''count''"

text \<open>
  The two shapes of guarded assignment that build \<open>stableParams\<close>:
  \<open>'k' in params && params.k !== undefined && params.k !== null\<close>, and for
  \<open>where\<close> and \<open>populate\<close> also
  \<open>typeof params.k === 'object' && Object.keys(params.k).length > 0\<close>.
\<close>

definition meaningfulValue :: "string \<Rightarrow> (string \<times> json) list \<Rightarrow> (string \<times> json) list" where
  "meaningfulValue k ps =
     (case map_of ps k of
        Some v \<Rightarrow> if v \<noteq> JUndefined \<and> v \<noteq> JNull then [(k, v)] else []
      | None \<Rightarrow> [])"

definition meaningfulObject :: "string \<Rightarrow> (string \<times> json) list \<Rightarrow> (string \<times> json) list" where
  "meaningfulObject k ps =
     (case map_of ps k of
        Some v \<Rightarrow> if v \<noteq> JUndefined \<and> v \<noteq> JNull
                  then (if isObject v \<and> keys_length v > 0 then [(k, v)] else [])
                  else []
      | None \<Rightarrow> [])"

text \<open>The entries of \<open>stableParams\<close>, in the order the source assigns them.\<close>

definition stableParams :: "(string \<times> json) list \<Rightarrow> (string \<times> json) list" where
  "stableParams ps =
     meaningfulObject ''where'' ps @ meaningfulValue ''sort'' ps @ meaningfulValue ''limit'' ps
     @ meaningfulObject ''populate'' ps @ meaningfulValue ''id'' ps"

subsection \<open>Base64\<close>

definition base64_alphabet :: string where
  "base64_alphabet = ''ABCDEFGHIJKLMNOPQRSTUVWXYZabcdefghijklmnopqrstuvwxyz0123456789+/''"

definition b64 :: "nat \<Rightarrow> char" where
  "b64 i = base64_alphabet ! (i mod 64)"

text \<open>\<open>Buffer.toString('base64')\<close> and \<open>btoa\<close>; a byte is a number below 256.\<close>

fun base64 :: "nat list \<Rightarrow> string" where
  "base64 [] = []"
| "base64 [a] = [b64 (a div 4), b64 ((a mod 4) * 16), CHR ''='', CHR ''='']"
| "base64 [a, b] =
     [b64 (a div 4), b64 ((a mod 4) * 16 + b div 16), b64 ((b mod 16) * 4), CHR ''='']"
| "base64 (a # b # c # rest) =
     [b64 (a div 4), b64 ((a mod 4) * 16 + b div 16), b64 ((b mod 16) * 4 + c div 64), b64 (c mod 64)]
     @ base64 rest"

text \<open>\<open>.replace(/\\+/g, '-').replace(/\\//g, '_').replace(/=/g, '')\<close>.\<close>

definition base64url :: "nat list \<Rightarrow> string" where
  "base64url buffer =
     filter (\<lambda>c. c \<noteq> CHR ''='')
       (map (\<lambda>c. if c = CHR ''/'' then CHR ''_'' else c)
          (map (\<lambda>c. if c = CHR ''+'' then CHR ''-'' else c) (base64 buffer)))"

text \<open>The two replacements on one character.\<close>

definition url_char :: "char \<Rightarrow> char" where
  "url_char c = (if c = CHR ''/'' then CHR ''_'' else if c = CHR ''+'' then CHR ''-'' else c)"

definition is_alnum :: "char \<Rightarrow> bool" where
  "is_alnum c =
     (let n = (of_char c :: nat) in (48 \<le> n \<and> n \<le> 57) \<or> (65 \<le> n \<and> n \<le> 90) \<or> (97 \<le> n \<and> n \<le> 122))"

fun insert_sorted :: "string \<Rightarrow> string list \<Rightarrow> string list" where
  "insert_sorted k [] = [k]"
| "insert_sorted k (x # xs) = (if str_less x k then x # insert_sorted k xs else k # x # xs)"

text \<open>\<open>keys.sort()\<close>: ascending by character code.\<close>

definition sort_strings :: "string list \<Rightarrow> string list" where
  "sort_strings ks = foldr insert_sorted ks []"

text \<open>
  The fallback of the \<open>catch\<close> branch. \<open>JSON.stringify(value, replacerKeys)\<close> is the
  parameter \<open>stringify\<close>.
\<close>

definition encodeParamsAsJSON :: "(json \<Rightarrow> string list \<Rightarrow> string) \<Rightarrow> (string \<times> json) list \<Rightarrow> string" where
  "encodeParamsAsJSON stringify ps =
     filter is_alnum (base64 (map of_char (stringify (JObj ps) (sort_strings (map fst ps)))))"

text \<open>
  \<open>packr.pack\<close> belongs to the msgpackr library and is the parameter \<open>pack\<close>:
  the bytes it returns, or \<open>None\<close> when it throws.
\<close>

definition encodedParams ::
  "(json \<Rightarrow> nat list option) \<Rightarrow> (json \<Rightarrow> string list \<Rightarrow> string) \<Rightarrow> (string \<times> json) list \<Rightarrow> string" where
  "encodedParams pack stringify sp =
     (case pack (JObj sp) of
        Some buffer \<Rightarrow> base64url buffer
      | None \<Rightarrow> encodeParamsAsJSON stringify sp)"

definition createQueryHash ::
  "(json \<Rightarrow> nat list option) \<Rightarrow> (json \<Rightarrow> string list \<Rightarrow> string) \<Rightarrow> PayloadQuery \<Rightarrow> string" where
  "createQueryHash pack stringify query =
     type_string (q_type query) @ ''.'' @ q_collection query @ ''.''
       @ encodedParams pack stringify (stableParams (q_params query))"

subsection \<open>A concrete encoder\<close>

text \<open>
  Where a concrete \<open>pack\<close> is needed: the plain MessagePack layout. Like msgpackr's
  encoder it writes the entries of an object in the object's own order. Lengths and
  integers outside the one-byte forms use the four-byte and eight-byte forms.
\<close>

definition be_bytes :: "nat \<Rightarrow> nat \<Rightarrow> nat list" where
  "be_bytes k n = map (\<lambda>i. (n div 256 ^ (k - 1 - i)) mod 256) [0..<k]"

fun packPlain :: "json \<Rightarrow> nat list" where
  "packPlain JNull = [192]"
| "packPlain JUndefined = [212, 0, 0]"
| "packPlain (JBool b) = (if b then [195] else [194])"
| "packPlain (JNum n) =
     (if 0 \<le> n \<and> n < 128 then [nat n]
      else if - 32 \<le> n \<and> n < 0 then [nat (256 + n)]
      else 211 # be_bytes 8 (nat (n mod 2 ^ 64)))"
| "packPlain (JStr s) =
     (if length s < 32 then (160 + length s) # map of_char s
      else 219 # be_bytes 4 (length s) @ map of_char s)"
| "packPlain (JArr xs) =
     (if length xs < 16 then [144 + length xs] else 221 # be_bytes 4 (length xs))
     @ concat (map packPlain xs)"
| "packPlain (JObj kvs) =
     (if length kvs < 16 then [128 + length kvs] else 223 # be_bytes 4 (length kvs))
     @ concat (map (\<lambda>(k, v). packPlain (JStr k) @ packPlain v) kvs)"

text \<open>The concrete encoder as a \<open>pack\<close> that never throws.\<close>

definition msgpack :: "json \<Rightarrow> nat list option" where
  "msgpack v = Some (packPlain v)"

text \<open>
  With a \<open>pack\<close> that never throws the fallback is not reached; closed statements
  pass this stringifier, which is then never applied.
\<close>

definition stringifyUnused :: "json \<Rightarrow> string list \<Rightarrow> string" where
  "stringifyUnused v ks = []"

section \<open>Schema-driven dependency extraction (schema-dependency-extractor.ts)\<close>

text \<open>
  The part of the Payload configuration the extractor reads: a field has an optional
  name, a type, for a relationship its \<open>relationTo\<close> (a slug or an array of slugs),
  for a join its \<open>collection\<close>, and optionally nested \<open>fields\<close> and \<open>tabs\<close>.
\<close>

datatype relationTo = RelationString string | RelationArray "string list" | RelationNone

datatype field =
  Field (f_name: "string option") (f_type: string) (f_relationTo: relationTo)
        (f_collection: string) (f_fields: "field list option") (f_tabs: "tab list option")
and tab =
  Tab (t_fields: "field list option")

record CollectionConfig =
  slug :: string
  collectionFields :: "field list"

record SanitizedConfig =
  collections :: "CollectionConfig list"

fun findFieldInCollection :: "string \<Rightarrow> field list \<Rightarrow> field option"
  and findFieldInTabs :: "string \<Rightarrow> tab list \<Rightarrow> field option" where
  "findFieldInCollection fieldName [] = None"
| "findFieldInCollection fieldName (Field name ty rel coll sub tabs # rest) =
     (if name = Some fieldName then Some (Field name ty rel coll sub tabs)
      else (case (case sub of Some fs \<Rightarrow> findFieldInCollection fieldName fs | None \<Rightarrow> None) of
              Some nestedField \<Rightarrow> Some nestedField
            | None \<Rightarrow>
                (case (case tabs of Some ts \<Rightarrow> findFieldInTabs fieldName ts | None \<Rightarrow> None) of
                   Some tabField \<Rightarrow> Some tabField
                 | None \<Rightarrow> findFieldInCollection fieldName rest)))"
| "findFieldInTabs fieldName [] = None"
| "findFieldInTabs fieldName (Tab sub # rest) =
     (case (case sub of Some fs \<Rightarrow> findFieldInCollection fieldName fs | None \<Rightarrow> None) of
        Some tabField \<Rightarrow> Some tabField
      | None \<Rightarrow> findFieldInTabs fieldName rest)"

definition getRelationshipTargets :: "field \<Rightarrow> string list" where
  "getRelationshipTargets field =
     (case (if f_type field = ''relationship''
            then (case f_relationTo field of
                    RelationString s \<Rightarrow> Some [s]
                  | RelationArray ss \<Rightarrow> Some ss
                  | RelationNone \<Rightarrow> None)
            else None) of
        Some targets \<Rightarrow> targets
      | None \<Rightarrow> if f_type field = ''join'' then [f_collection field] else [])"

text \<open>\<open>Set.prototype.add\<close> on a set kept in insertion order.\<close>

definition set_add :: "string list \<Rightarrow> string \<Rightarrow> string list" where
  "set_add xs x = (if x \<in> set xs then xs else xs @ [x])"

text \<open>\<open>key in v\<close> for an own property.\<close>

definition has_key :: "json \<Rightarrow> string \<Rightarrow> bool" where
  "has_key v k = (map_of (entries v) k \<noteq> None)"

text \<open>\<open>payloadConfig.collections.find((col) => col.slug === name)\<close>.\<close>

definition findCollection :: "SanitizedConfig \<Rightarrow> string \<Rightarrow> CollectionConfig option" where
  "findCollection payloadConfig name = find (\<lambda>col. slug col = name) (collections payloadConfig)"

lemma size_alist_member:
  "(k, c) \<in> set kvs \<Longrightarrow> size c < Suc (size_list (size_prod (\<lambda>_. 0) size) kvs)"
  by (induction kvs) auto

lemma size_entry:
  "isObject v \<Longrightarrow> (k, c) \<in> set (entries v) \<Longrightarrow> size c < size v"
  by (cases v) (auto dest: index_entries_snd size_member size_alist_member)

lemma size_get_prop_object:
  "isObject v \<Longrightarrow> v \<noteq> JNull \<Longrightarrow> size (get_prop v k) < size v"
  by (cases v)
     (auto split: option.splits dest!: map_of_SomeD dest: index_entries_snd size_member size_alist_member)

lemma size_nested_populate:
  "isObject populate \<Longrightarrow> (k, c) \<in> set (entries populate) \<Longrightarrow> isObject c \<Longrightarrow> c \<noteq> JNull \<Longrightarrow>
     size (get_prop c key) < size populate"
  using size_entry [of populate k c] size_get_prop_object [of c key] by simp

function extractPopulateDependencies ::
  "json \<Rightarrow> CollectionConfig \<Rightarrow> string list \<Rightarrow> SanitizedConfig \<Rightarrow> string list" where
  "extractPopulateDependencies populate collectionConfig dependencies payloadConfig =
     (if \<not> isObject populate \<or> populate = JNull then dependencies
      else foldl (\<lambda>deps (fieldName, config).
             if config = JBool True \<or> (isObject config \<and> config \<noteq> JNull) then
               (case findFieldInCollection fieldName (collectionFields collectionConfig) of
                  None \<Rightarrow> deps
                | Some field \<Rightarrow>
                    (let targetCollections = getRelationshipTargets field;
                         deps1 = foldl set_add deps targetCollections
                     in if isObject config \<and> config \<noteq> JNull \<and> has_key config ''populate'' then
                          foldl (\<lambda>deps2 targetCollection.
                                   case findCollection payloadConfig targetCollection of
                                     None \<Rightarrow> deps2
                                   | Some targetConfig \<Rightarrow>
                                       extractPopulateDependencies (get_prop config ''populate'')
                                         targetConfig deps2 payloadConfig)
                            deps1 targetCollections
                        else deps1))
             else deps)
           dependencies (entries populate))"
  by pat_completeness auto
termination
  by (relation "measure (\<lambda>(populate, collectionConfig, dependencies, payloadConfig). size populate)")
     (auto intro: size_nested_populate)

declare extractPopulateDependencies.simps [simp del]

text \<open>The loop over the entries of a where object that looks for relationship fields.\<close>

definition whereFieldDependencies ::
  "CollectionConfig \<Rightarrow> string list \<Rightarrow> (string \<times> json) list \<Rightarrow> string list" where
  "whereFieldDependencies collectionConfig dependencies kvs =
     foldl (\<lambda>deps (fieldPath, condition).
              if fieldPath = ''and'' \<or> fieldPath = ''or'' then deps
              else if CHR ''.'' \<in> set fieldPath then
                (case findFieldInCollection (hd (split_on CHR ''.'' fieldPath))
                        (collectionFields collectionConfig) of
                   None \<Rightarrow> deps
                 | Some field \<Rightarrow> foldl set_add deps (getRelationshipTargets field))
              else
                (case findFieldInCollection fieldPath (collectionFields collectionConfig) of
                   None \<Rightarrow> deps
                 | Some field \<Rightarrow> foldl set_add deps (getRelationshipTargets field)))
           dependencies kvs"

text \<open>The conditions under \<open>where.and\<close> or \<open>where.or\<close> when \<open>Array.isArray\<close> holds of it.\<close>

definition arrayProp :: "json \<Rightarrow> string \<Rightarrow> json list" where
  "arrayProp v k = (case get_prop v k of JArr conds \<Rightarrow> conds | _ \<Rightarrow> [])"

lemma size_arrayProp: "c \<in> set (arrayProp v k) \<Longrightarrow> size c < size v"
  by (auto simp: arrayProp_def split: json.splits intro: size_condition [OF sym])

function extractWhereDependencies ::
  "json \<Rightarrow> CollectionConfig \<Rightarrow> string list \<Rightarrow> SanitizedConfig \<Rightarrow> string list" where
  "extractWhereDependencies whereClause collectionConfig dependencies payloadConfig =
     (if \<not> isObject whereClause \<or> whereClause = JNull then dependencies
      else whereFieldDependencies collectionConfig
             (foldl (\<lambda>deps condition.
                       extractWhereDependencies condition collectionConfig deps payloadConfig)
                (foldl (\<lambda>deps condition.
                          extractWhereDependencies condition collectionConfig deps payloadConfig)
                   dependencies (arrayProp whereClause ''and''))
                (arrayProp whereClause ''or''))
             (entries whereClause))"
  by pat_completeness auto
termination
  by (relation "measure (\<lambda>(whereClause, collectionConfig, dependencies, payloadConfig). size whereClause)")
     (auto intro: size_arrayProp)

declare extractWhereDependencies.simps [simp del]

text \<open>\<open>query.populate\<close> and \<open>query.where\<close>: a property of the query, or \<open>undefined\<close>.\<close>

definition queryParam :: "PayloadQuery \<Rightarrow> string \<Rightarrow> json" where
  "queryParam query k = (case map_of (q_params query) k of Some v \<Rightarrow> v | None \<Rightarrow> JUndefined)"

definition extractQueryDependencies :: "PayloadQuery \<Rightarrow> SanitizedConfig \<Rightarrow> string list" where
  "extractQueryDependencies query payloadConfig =
     (let dependencies = set_add [] (q_collection query) in
      case findCollection payloadConfig (q_collection query) of
        None \<Rightarrow> dependencies
      | Some collectionConfig \<Rightarrow>
          (let deps1 =
                 (if (q_type query = Find \<or> q_type query = FindByID)
                      \<and> truthy (queryParam query ''populate'')
                  then extractPopulateDependencies (queryParam query ''populate'') collectionConfig
                         dependencies payloadConfig
                  else dependencies)
           in if (q_type query = Find \<or> q_type query = Count) \<and> truthy (queryParam query ''where'')
              then extractWhereDependencies (queryParam query ''where'') collectionConfig deps1
                     payloadConfig
              else deps1))"




text \<open>The configuration of the repository's test of the extractor.\<close>

definition mockPayloadConfig :: SanitizedConfig where
  "mockPayloadConfig =
     \<lparr>collections =
        [\<lparr>slug = ''tasks'',
          collectionFields =
            [Field (Some ''name'') ''text'' RelationNone [] None None,
             Field (Some ''assignee'') ''relationship'' (RelationString ''users'') [] None None,
             Field (Some ''project'') ''relationship'' (RelationString ''projects'') [] None None,
             Field (Some ''author'') ''relationship'' (RelationString ''users'') [] None None]\<rparr>,
         \<lparr>slug = ''users'',
          collectionFields =
            [Field (Some ''name'') ''text'' RelationNone [] None None,
             Field (Some ''email'') ''email'' RelationNone [] None None]\<rparr>,
         \<lparr>slug = ''projects'',
          collectionFields =
            [Field (Some ''name'') ''text'' RelationNone [] None None,
             Field (Some ''owner'') ''relationship'' (RelationString ''users'') [] None None]\<rparr>]\<rparr>"

section \<open>The subscriptions actor (actors/subscriptions.ts)\<close>

text \<open>
  A JavaScript object used as a dictionary is the list of its entries: \<open>obj[k]\<close> is
  \<open>map_of obj k\<close>, \<open>obj[k] = v\<close> is \<open>obj_set\<close> and \<open>delete obj[k]\<close> is
  \<open>obj_delete\<close>.
\<close>

fun obj_set :: "(string \<times> 'a) list \<Rightarrow> string \<Rightarrow> 'a \<Rightarrow> (string \<times> 'a) list" where
  "obj_set [] k v = [(k, v)]"
| "obj_set ((k', v') # rest) k v = (if k' = k then (k, v) # rest else (k', v') # obj_set rest k v)"

definition obj_delete :: "(string \<times> 'a) list \<Rightarrow> string \<Rightarrow> (string \<times> 'a) list" where
  "obj_delete obj k = filter (\<lambda>e. fst e \<noteq> k) obj"

record DependencyEntry =
  entry_collection :: string
  entry_dependencies :: "string list"
  entry_query :: PayloadQuery

text \<open>The actor's state; \<open>sessions\<close> is the array of \<open>{ clientId, session }\<close>.\<close>

record ActorState =
  sessions :: "(string \<times> SessionSubscription) list"
  dependencies :: "(string \<times> DependencyEntry) list"
  reverseDependencies :: "(string \<times> string list) list"

definition initialState :: ActorState where
  "initialState = \<lparr>sessions = [], dependencies = [], reverseDependencies = []\<rparr>"

definition getSession :: "ActorState \<Rightarrow> string \<Rightarrow> SessionSubscription option" where
  "getSession c cid = map_option snd (find (\<lambda>s. fst s = cid) (sessions c))"

fun replaceSession ::
  "(string \<times> SessionSubscription) list \<Rightarrow> string \<Rightarrow> SessionSubscription
     \<Rightarrow> (string \<times> SessionSubscription) list" where
  "replaceSession [] cid session = [(cid, session)]"
| "replaceSession (s # rest) cid session =
     (if fst s = cid then (fst s, session) # rest else s # replaceSession rest cid session)"

definition addSession :: "ActorState \<Rightarrow> string \<Rightarrow> SessionSubscription \<Rightarrow> ActorState" where
  "addSession c cid session = c\<lparr>sessions := replaceSession (sessions c) cid session\<rparr>"

definition deleteSession :: "ActorState \<Rightarrow> string \<Rightarrow> ActorState" where
  "deleteSession c cid = c\<lparr>sessions := filter (\<lambda>s. fst s \<noteq> cid) (sessions c)\<rparr>"

fun upsertQuery :: "Query list \<Rightarrow> Query \<Rightarrow> Query list" where
  "upsertQuery [] query = [query]"
| "upsertQuery (q # rest) query =
     (if queryKey q = queryKey query then query # rest else q # upsertQuery rest query)"

fun updateFirstSession ::
  "(string \<times> SessionSubscription) list \<Rightarrow> string \<Rightarrow> (SessionSubscription \<Rightarrow> SessionSubscription)
     \<Rightarrow> (string \<times> SessionSubscription) list" where
  "updateFirstSession [] cid f = []"
| "updateFirstSession (s # rest) cid f =
     (if fst s = cid then (fst s, f (snd s)) # rest else s # updateFirstSession rest cid f)"

text \<open>The action \<open>addQueryToSession\<close> of the actor; \<open>now\<close> is the value of \<open>new Date()\<close>.\<close>

definition actor_addQueryToSession :: "nat \<Rightarrow> ActorState \<Rightarrow> string \<Rightarrow> Query \<Rightarrow> ActorState" where
  "actor_addQueryToSession now c cid query =
     c\<lparr>sessions := updateFirstSession (sessions c) cid
          (\<lambda>session. session\<lparr>queries := upsertQuery (queries session) query, lastActivity := now\<rparr>)\<rparr>"

definition addDependencies :: "ActorState \<Rightarrow> string \<Rightarrow> DependencyEntry \<Rightarrow> ActorState" where
  "addDependencies c key dependencyObject =
     c\<lparr>dependencies := obj_set (dependencies c) key dependencyObject\<rparr>"

definition addReverseDependencies :: "ActorState \<Rightarrow> string \<Rightarrow> string list \<Rightarrow> ActorState" where
  "addReverseDependencies c key deps =
     foldl (\<lambda>c depCollection.
              (let arr = (case map_of (reverseDependencies c) depCollection of
                            None \<Rightarrow> [] | Some existing \<Rightarrow> existing)
               in c\<lparr>reverseDependencies :=
                      obj_set (reverseDependencies c) depCollection
                        (if key \<in> set arr then arr else arr @ [key])\<rparr>))
       c deps"

definition removeDependencies :: "ActorState \<Rightarrow> string \<Rightarrow> ActorState" where
  "removeDependencies c key =
     (case map_of (dependencies c) key of
        None \<Rightarrow> c
      | Some queryDeps \<Rightarrow>
          (foldl (\<lambda>c depCollection.
                    (case map_of (reverseDependencies c) depCollection of
                       None \<Rightarrow> c
                     | Some arr \<Rightarrow>
                         (if filter (\<lambda>qk. qk \<noteq> key) arr = []
                          then c\<lparr>reverseDependencies :=
                                   obj_delete (reverseDependencies c) depCollection\<rparr>
                          else c\<lparr>reverseDependencies :=
                                   obj_set (reverseDependencies c) depCollection
                                     (filter (\<lambda>qk. qk \<noteq> key) arr)\<rparr>)))
             c (entry_dependencies queryDeps))
          \<lparr>dependencies := obj_delete (dependencies c) key\<rparr>)"

section \<open>The dependency tracker (dependency-tracker.ts)\<close>

text \<open>
  \<open>registerQueryDependencies\<close> with the tracker initialised, as the plugin's
  \<open>onInit\<close> does before any query arrives; the heuristic fallback of a tracker that
  was never initialised is not modelled.
\<close>

definition registerQueryDependencies ::
  "SanitizedConfig \<Rightarrow> ActorState \<Rightarrow> string \<Rightarrow> string \<Rightarrow> json \<Rightarrow> ActorState" where
  "registerQueryDependencies payloadConfig c key coll queryParams =
     (let query = \<lparr>q_type = Find, q_collection = coll,
                    q_params = [(''populate'', get_prop queryParams ''populate''),
                                (''where'', get_prop queryParams ''where'')]\<rparr>;
          deps = extractQueryDependencies query payloadConfig
      in addReverseDependencies
           (addDependencies c key
              \<lparr>entry_collection = coll, entry_dependencies = deps, entry_query = query\<rparr>)
           key deps)"

definition getQueriesDependingOn :: "ActorState \<Rightarrow> string \<Rightarrow> string list" where
  "getQueriesDependingOn c coll =
     (case map_of (reverseDependencies c) coll of Some keys \<Rightarrow> keys | None \<Rightarrow> [])"

definition unregisterQueryDependencies :: "ActorState \<Rightarrow> string \<Rightarrow> ActorState" where
  "unregisterQueryDependencies c key = removeDependencies c key"

section \<open>The subscription manager (subscription-manager.ts)\<close>

definition registerSession ::
  "SanitizedConfig \<Rightarrow> nat \<Rightarrow> ActorState \<Rightarrow> string \<Rightarrow> string \<Rightarrow> string \<Rightarrow> queryType \<Rightarrow> json
     \<Rightarrow> ActorState" where
  "registerSession payloadConfig now c cid key coll qt queryParams =
     (let c1 = (case getSession c cid of
                  None \<Rightarrow> addSession c cid \<lparr>clientId = cid, queries = [], lastActivity = now\<rparr>
                | Some session \<Rightarrow> c);
          c2 = actor_addQueryToSession now c1 cid
                 \<lparr>queryKey = key, collection = coll, queryType = qt, params = queryParams,
                  lastSyncTime = now\<rparr>
      in registerQueryDependencies payloadConfig c2 key coll queryParams)"

definition addQueryToSession ::
  "SanitizedConfig \<Rightarrow> nat \<Rightarrow> ActorState \<Rightarrow> string \<Rightarrow> string \<Rightarrow> string \<Rightarrow> queryType \<Rightarrow> json
     \<Rightarrow> ActorState" where
  "addQueryToSession payloadConfig now c cid key coll qt queryParams =
     (case getSession c cid of
        None \<Rightarrow> c
      | Some session \<Rightarrow>
          registerQueryDependencies payloadConfig
            (actor_addQueryToSession now c cid
               \<lparr>queryKey = key, collection = coll, queryType = qt, params = queryParams,
                lastSyncTime = now\<rparr>)
            key coll queryParams)"

definition subscribeToQuery ::
  "SanitizedConfig \<Rightarrow> nat \<Rightarrow> ActorState \<Rightarrow> string \<Rightarrow> string \<Rightarrow> string \<Rightarrow> json \<Rightarrow> ActorState" where
  "subscribeToQuery payloadConfig now c cid key coll queryParams =
     (case getSession c cid of
        None \<Rightarrow> registerSession payloadConfig now c cid key coll Find queryParams
      | Some session \<Rightarrow> addQueryToSession payloadConfig now c cid key coll Find queryParams)"

datatype js_error = TypeError

text \<open>
  \<open>for (const [queryKey] of session.queries)\<close>: the array pattern asks each element
  for its iterator. The elements are \<open>Query\<close> objects, which have none, so binding
  the first element raises a \<open>TypeError\<close> before the loop body runs.
\<close>

definition arrayPattern :: "Query \<Rightarrow> js_error + string" where
  "arrayPattern query = Inl TypeError"

fun unregisterQueries :: "ActorState \<Rightarrow> Query list \<Rightarrow> js_error + ActorState" where
  "unregisterQueries c [] = Inr c"
| "unregisterQueries c (query # rest) =
     (case arrayPattern query of
        Inl e \<Rightarrow> Inl e
      | Inr key \<Rightarrow> unregisterQueries (unregisterQueryDependencies c key) rest)"

text \<open>
  \<open>removeSession\<close>: the error with which the promise rejects, if any, and the
  actor's state afterwards.
\<close>

definition removeSession :: "ActorState \<Rightarrow> string \<Rightarrow> js_error option \<times> ActorState" where
  "removeSession c cid =
     (case getSession c cid of
        None \<Rightarrow> (None, c)
      | Some session \<Rightarrow>
          (case unregisterQueries c (queries session) of
             Inl e \<Rightarrow> (Some e, c)
           | Inr c' \<Rightarrow> (None, deleteSession c' cid)))"

section \<open>The push channel (endpoints.ts)\<close>

text \<open>
  The \<open>clients\<close> map holds the connected client identifiers. Opening the channel
  adds the client; the listener on the request's \<open>abort\<close> signal runs when the
  channel closes.
\<close>

definition openChannel :: "string list \<Rightarrow> string \<Rightarrow> string list" where
  "openChannel clients cid = (if cid \<in> set clients then clients else clients @ [cid])"

definition abortListener :: "string list \<times> ActorState \<Rightarrow> string \<Rightarrow> string list \<times> ActorState" where
  "abortListener world cid =
     (case world of (clients, c) \<Rightarrow>
        if cid \<in> set clients then (filter (\<lambda>k. k \<noteq> cid) clients, deleteSession c cid)
        else (clients, c))"

section \<open>Fan-out orchestration (smart-publisher.ts)\<close>

text \<open>
  A promise ends fulfilled, rejected with a reason, or never settles. The three
  publishers are parameters: an \<open>async\<close> function never throws into its caller;
  started on a world (the channels and the actor's state) it leaves a world and the
  outcome of its promise.
\<close>

datatype outcome = Fulfilled | Rejected string | Pending

type_synonym 'w publisher = "string \<Rightarrow> operation \<Rightarrow> json \<Rightarrow> json \<Rightarrow> 'w \<Rightarrow> outcome \<times> 'w"

type_synonym 'w crossPublisher =
  "string \<Rightarrow> json \<Rightarrow> json \<Rightarrow> json \<Rightarrow> operation \<Rightarrow> 'w \<Rightarrow> outcome \<times> 'w"

text \<open>\<open>v?.id\<close>.\<close>

definition optionalId :: "json \<Rightarrow> json" where
  "optionalId v = (if v = JUndefined \<or> v = JNull then JUndefined else get_prop v ''id'')"

text \<open>The publishers whose result of \<open>Promise.allSettled\<close> has status \<open>rejected\<close>.\<close>

definition rejectedNames :: "(string \<times> outcome) list \<Rightarrow> string list" where
  "rejectedNames results =
     map fst (filter (\<lambda>r. case snd r of Rejected reason \<Rightarrow> True | _ \<Rightarrow> False) results)"

text \<open>
  What a call of \<open>publishChanges\<close> comes to: the outcome of its promise, the
  publishers it logged as failed, and the world the three publishers left.
\<close>

record 'w published =
  promise :: outcome
  failures :: "string list"
  world :: 'w

text \<open>
  The three publishers are called one after the other, each before any is awaited;
  \<open>await Promise.allSettled\<close> resumes when all three have settled, never by
  rejecting, and does not resume when one never settles.
\<close>

definition publishChanges ::
  "'w publisher \<Rightarrow> 'w publisher \<Rightarrow> 'w crossPublisher
     \<Rightarrow> string \<Rightarrow> operation \<Rightarrow> json \<Rightarrow> json \<Rightarrow> 'w \<Rightarrow> 'w published" where
  "publishChanges publishIncrementalUpdates publishCountUpdates publishCrossCollectionUpdates
       changedCollection operation doc originalDoc w =
     (let docId = (if truthy (optionalId doc) then optionalId doc else JStr ''unknown'');
          r1 = publishIncrementalUpdates changedCollection operation doc originalDoc w;
          r2 = publishCountUpdates changedCollection operation doc originalDoc (snd r1);
          r3 = publishCrossCollectionUpdates changedCollection docId doc originalDoc operation (snd r2)
      in if fst r1 = Pending \<or> fst r2 = Pending \<or> fst r3 = Pending
         then \<lparr>promise = Pending, failures = [], world = snd r3\<rparr>
         else \<lparr>promise = Fulfilled,
                failures = rejectedNames
                  [(''INCREMENTAL'', fst r1), (''COUNT'', fst r2), (''SMART-CROSS-COLLECTION'', fst r3)],
                world = snd r3\<rparr>)"

section \<open>The afterOperation hook (hooks/afterOperation.ts)\<close>

text \<open>\<open>promise.catch(handler)\<close> with a handler that logs and returns.\<close>

definition catch :: "outcome \<Rightarrow> outcome" where
  "catch p = (case p of Rejected reason \<Rightarrow> Fulfilled | _ \<Rightarrow> p)"

definition operationType :: "string \<Rightarrow> operation option" where
  "operationType operation =
     (if operation = ''create'' then Some Create
      else if operation \<in> set [''update'', ''updateByID''] then Some Update
      else if operation \<in> set [''delete'', ''deleteByID''] then Some Delete
      else None)"

text \<open>
  What the hook comes to: the value it returns to the operation, the promise it left
  behind without awaiting it (if it started one), and the world.
\<close>

record 'w hookReturn =
  returned :: json
  detached :: "outcome option"
  after :: 'w

definition afterOperation ::
  "'w publisher \<Rightarrow> 'w publisher \<Rightarrow> 'w crossPublisher
     \<Rightarrow> string \<Rightarrow> json \<Rightarrow> string \<Rightarrow> json \<Rightarrow> 'w \<Rightarrow> 'w hookReturn" where
  "afterOperation publishIncrementalUpdates publishCountUpdates publishCrossCollectionUpdates
       collectionSlug result operation originalDoc w =
     (if operation \<notin> set [''create'', ''update'', ''updateByID'', ''delete'', ''deleteByID'']
      then \<lparr>returned = result, detached = None, after = w\<rparr>
      else (case operationType operation of
              None \<Rightarrow> \<lparr>returned = result, detached = None, after = w\<rparr>
            | Some opType \<Rightarrow>
                (let p = publishChanges publishIncrementalUpdates publishCountUpdates
                           publishCrossCollectionUpdates collectionSlug opType result originalDoc w
                 in \<lparr>returned = result, detached = Some (catch (promise p)), after = world p\<rparr>)))"

(*PROPERTIES*)

section \<open>Properties of the document matcher\<close>

lemma compareValues_undefined: "compareValues JUndefined e = (e = JUndefined)"
  by (cases e) (auto simp: compareValues_def)

lemma split_on_nonempty: "split_on c s \<noteq> []"
  by (induction s) (auto split: list.splits)

lemma split_on_append: "split_on c (p @ c # r) = split_on c p @ split_on c r"
proof (induction p)
  case Nil
  show ?case by simp
next
  case (Cons x p)
  obtain w ws where "split_on c p = w # ws"
    using split_on_nonempty [of c p] by (cases "split_on c p") auto
  with Cons.IH show ?case by simp
qed

lemma foldl_undefined:
  "foldl (\<lambda>current key.
            if truthy current \<and> get_prop current key \<noteq> JUndefined
            then get_prop current key else JUndefined) JUndefined keys = JUndefined"
  by (induction keys) auto

text \<open>A path whose prefix \<open>p\<close> resolves to nothing resolves to \<open>undefined\<close>.\<close>

lemma missing_intermediate:
  "getNestedValue doc p = JUndefined \<Longrightarrow> getNestedValue doc (p @ CHR ''.'' # rest) = JUndefined"
  by (simp add: getNestedValue_def split_on_append foldl_undefined)

text \<open>
  Claim C4, as the matcher implements it. When the field path resolves to
  \<open>undefined\<close> (a missing intermediate, see \<open>missing_intermediate\<close>), a single
  operator condition with a defined expected value fails under \<open>equals\<close>,
  \<open>in\<close>, \<open>like\<close>, \<open>contains\<close>, \<open>exists\<close> with any value but
  \<open>false\<close>, an unknown operator, and the bare-value shorthand; it succeeds under
  \<open>exists: false\<close>, and also under \<open>not_equals\<close> and \<open>not_in\<close>: a missing
  value is not equal to, and not among, defined expected values. The four order
  operators are not part of this statement.
\<close>

theorem undefined_field_conditions:
  assumes "getNestedValue doc fieldPath = JUndefined"
  shows "(evaluateFieldCondition doc fieldPath (JObj [(''exists'', e)]) = (e = JBool False))
    \<and> (evaluateFieldCondition doc fieldPath (JObj [(''equals'', e)]) = (e = JUndefined))
    \<and> (evaluateFieldCondition doc fieldPath (JObj [(''in'', e)])
         = (\<exists>vs. e = JArr vs \<and> JUndefined \<in> set vs))
    \<and> \<not> evaluateFieldCondition doc fieldPath (JObj [(''like'', e)])
    \<and> \<not> evaluateFieldCondition doc fieldPath (JObj [(''contains'', e)])
    \<and> (operator \<notin> {''equals'', ''not_equals'', ''in'', ''not_in'', ''greater_than'',
          ''greater_than_equal'', ''less_than'', ''less_than_equal'', ''like'', ''contains'',
          ''exists''} \<longrightarrow> \<not> evaluateFieldCondition doc fieldPath (JObj [(operator, e)]))
    \<and> ((\<not> isObject e \<or> e = JNull) \<longrightarrow> evaluateFieldCondition doc fieldPath e = (e = JUndefined))
    \<and> (evaluateFieldCondition doc fieldPath (JObj [(''not_equals'', e)]) = (e \<noteq> JUndefined))
    \<and> (evaluateFieldCondition doc fieldPath (JObj [(''not_in'', e)])
         = (\<not> (\<exists>vs. e = JArr vs \<and> JUndefined \<in> set vs)))"
  using assms
  apply (simp add: evaluateFieldCondition_def operatorHolds_def compareValues_undefined list_ex_iff)
  apply (cases e; auto)
  done

theorem undefined_field_conditions_witness:
  "getNestedValue (JObj []) ''a.b'' = JUndefined
   \<and> evaluateFieldCondition (JObj []) ''a.b'' (JObj [(''exists'', JBool False)])
   \<and> \<not> evaluateFieldCondition (JObj []) ''a.b'' (JObj [(''equals'', JStr ''x'')])
   \<and> \<not> evaluateFieldCondition (JObj []) ''a.b'' (JObj [(''matches'', JStr ''x'')])
   \<and> \<not> evaluateFieldCondition (JObj []) ''a.b'' (JStr ''x'')
   \<and> evaluateFieldCondition (JObj []) ''a.b'' (JObj [(''not_in'', JArr [JStr ''x''])])"
proof -
  have h: "getNestedValue (JObj []) ''a.b'' = JUndefined"
    by (simp add: getNestedValue_def)
  show ?thesis
    using h undefined_field_conditions [OF h, of "JBool False" "''matches''"]
      undefined_field_conditions [OF h, of "JStr ''x''" "''matches''"]
      undefined_field_conditions [OF h, of "JArr [JStr ''x'']" "''matches''"]
    by simp
qed

text \<open>
  Claim C4 as stated fails: on the empty document the path \<open>a.b\<close> has the missing
  intermediate \<open>a\<close>, and the condition \<open>not_equals: 'x'\<close> succeeds.
\<close>

theorem undefined_field_not_equals_counterexample:
  "getNestedValue (JObj []) ''a'' = JUndefined
   \<and> getNestedValue (JObj []) ''a.b'' = JUndefined
   \<and> evaluateFieldCondition (JObj []) ''a.b'' (JObj [(''not_equals'', JStr ''x'')])"
  by (simp add: getNestedValue_def evaluateFieldCondition_def operatorHolds_def compareValues_def)

text \<open>
  Claim C10. When the where-clause object holds an array under \<open>and\<close>, the result
  is the conjunction of that array's conditions and nothing else of the object counts:
  the object evaluates as the object with the \<open>and\<close> entry alone. When \<open>and\<close>
  holds no array and \<open>or\<close> holds one, the result is the disjunction of that array's
  conditions, and the object evaluates as the object with the \<open>or\<close> entry alone.
  The same holds through \<open>documentMatchesQuery\<close>.
\<close>

theorem logical_key_ignores_siblings:
  "(map_of kvs ''and'' = Some (JArr conds) \<longrightarrow>
      evaluateWhereClause doc (JObj kvs) = list_all (evaluateWhereClause doc) conds
      \<and> evaluateWhereClause doc (JObj kvs) = evaluateWhereClause doc (JObj [(''and'', JArr conds)])
      \<and> documentMatchesQuery doc (JObj [(''where'', JObj kvs)])
          = list_all (evaluateWhereClause doc) conds)
   \<and> (\<not> isArray (get_prop (JObj kvs) ''and'') \<and> map_of kvs ''or'' = Some (JArr conds) \<longrightarrow>
      evaluateWhereClause doc (JObj kvs) = list_ex (evaluateWhereClause doc) conds
      \<and> evaluateWhereClause doc (JObj kvs) = evaluateWhereClause doc (JObj [(''or'', JArr conds)])
      \<and> documentMatchesQuery doc (JObj [(''where'', JObj kvs)])
          = list_ex (evaluateWhereClause doc) conds)"
proof (intro conjI impI)
  assume a: "map_of kvs ''and'' = Some (JArr conds)"
  then have ne: "kvs \<noteq> []" by auto
  show e: "evaluateWhereClause doc (JObj kvs) = list_all (evaluateWhereClause doc) conds"
    using a by simp
  show "evaluateWhereClause doc (JObj kvs) = evaluateWhereClause doc (JObj [(''and'', JArr conds)])"
    using a by simp
  show "documentMatchesQuery doc (JObj [(''where'', JObj kvs)])
          = list_all (evaluateWhereClause doc) conds"
    using e ne by (simp add: documentMatchesQuery_def keys_length_def)
next
  assume b: "\<not> isArray (get_prop (JObj kvs) ''and'') \<and> map_of kvs ''or'' = Some (JArr conds)"
  then have ne: "kvs \<noteq> []" by auto
  show e: "evaluateWhereClause doc (JObj kvs) = list_ex (evaluateWhereClause doc) conds"
    using b by (auto split: json.splits option.splits)
  show "evaluateWhereClause doc (JObj kvs) = evaluateWhereClause doc (JObj [(''or'', JArr conds)])"
    using b by (auto split: json.splits option.splits)
  show "documentMatchesQuery doc (JObj [(''where'', JObj kvs)])
          = list_ex (evaluateWhereClause doc) conds"
    using e ne by (simp add: documentMatchesQuery_def keys_length_def)
qed

theorem logical_key_ignores_siblings_witness:
  "evaluateWhereClause (JObj [(''status'', JStr ''active'')])
     (JObj [(''and'', JArr [JObj [(''status'', JStr ''active'')]]),
            (''status'', JStr ''completed''),
            (''or'', JArr [JObj [(''status'', JStr ''archived'')]])])
   \<and> \<not> evaluateFieldCondition (JObj [(''status'', JStr ''active'')]) ''status'' (JStr ''completed'')
   \<and> evaluateWhereClause (JObj [(''status'', JStr ''active'')])
     (JObj [(''or'', JArr [JObj [(''status'', JStr ''active'')]]),
            (''status'', JStr ''completed'')])"
proof -
  let ?doc = "JObj [(''status'', JStr ''active'')]"
  let ?conds = "[JObj [(''status'', JStr ''active'')]]"
  let ?kvs1 = "[(''and'', JArr ?conds), (''status'', JStr ''completed''),
                (''or'', JArr [JObj [(''status'', JStr ''archived'')]])]"
  let ?kvs2 = "[(''or'', JArr ?conds), (''status'', JStr ''completed'')]"
  have a: "map_of ?kvs1 ''and'' = Some (JArr ?conds)" by simp
  have b: "\<not> isArray (get_prop (JObj ?kvs2) ''and'') \<and> map_of ?kvs2 ''or'' = Some (JArr ?conds)"
    by simp
  have c: "evaluateFieldCondition ?doc ''status'' (JStr ''active'')"
    by (simp add: evaluateFieldCondition_def getNestedValue_def compareValues_def)
  have d: "\<not> evaluateFieldCondition ?doc ''status'' (JStr ''completed'')"
    by (simp add: evaluateFieldCondition_def getNestedValue_def compareValues_def)
  have e: "evaluateWhereClause ?doc (JObj [(''status'', JStr ''active'')])"
    using c by simp
  show ?thesis
    using logical_key_ignores_siblings [of ?kvs1 ?conds ?doc]
      logical_key_ignores_siblings [of ?kvs2 ?conds ?doc] a b d e
    by simp
qed

section \<open>Properties of the change classifier\<close>

text \<open>
  Claim C1. With \<open>isIn\<close> the after-document matching the filter and \<open>wasIn\<close> a
  before-document existing and matching it (a document that does not exist does not
  match): a \<open>create\<close> gives \<open>insert\<close> iff \<open>isIn\<close>, else nothing; an
  \<open>update\<close> gives \<open>update\<close> iff \<open>isIn\<close> and \<open>wasIn\<close>, \<open>upsert\<close> iff
  \<open>isIn\<close> and not \<open>wasIn\<close>, \<open>delete\<close> iff \<open>wasIn\<close> and not \<open>isIn\<close>,
  nothing iff neither; a \<open>delete\<close> gives \<open>delete\<close> iff \<open>wasIn\<close>, else nothing.
  Every \<open>delete\<close> carries the before-document, also in the update sent for a
  subscribed query, whatever its populate configuration.
\<close>

theorem classifier_table:
  fixes before after filter :: json
  defines "isIn \<equiv> documentMatchesQuery after filter"
    and "wasIn \<equiv> truthy before \<and> documentMatchesQuery before filter"
  shows "(fst (classifyChange Create after before filter) = (if isIn then Some Insert else None))
    \<and> (fst (classifyChange Update after before filter) =
         (if isIn \<and> wasIn then Some UpdateChange
          else if isIn \<and> \<not> wasIn then Some Upsert
          else if \<not> isIn \<and> wasIn then Some DeleteChange
          else None))
    \<and> (fst (classifyChange Delete after before filter) = (if wasIn then Some DeleteChange else None))
    \<and> (\<forall>operation. fst (classifyChange operation after before filter) = Some DeleteChange \<longrightarrow>
           snd (classifyChange operation after before filter) = before)
    \<and> (\<forall>operation populateDocument query u.
           params query = filter \<and>
           relevantUpdate populateDocument (collection query) operation after before query = Some u \<and>
           update_changeType u = DeleteChange \<longrightarrow> update_data u = before)"
proof -
  have del: "fst (classifyChange operation after before filter) = Some DeleteChange \<Longrightarrow>
      snd (classifyChange operation after before filter) = before" for operation
    by (cases operation) (auto simp: classifyChange_def Let_def split: if_splits)
  have upd: "params query = filter \<Longrightarrow>
      relevantUpdate populateDocument (collection query) operation after before query = Some u \<Longrightarrow>
      update_changeType u = DeleteChange \<Longrightarrow> update_data u = before"
    for operation populateDocument query u
    using del [of operation]
    by (cases "classifyChange operation after before filter")
       (auto simp: relevantUpdate_def split: if_splits option.splits)
  show ?thesis
    unfolding isIn_def wasIn_def
    using del upd by (simp add: classifyChange_def Let_def) blast
qed

theorem classifier_table_witness:
  "documentMatchesQuery (JObj [(''status'', JStr ''active'')])
       (JObj [(''where'', JObj [(''status'', JStr ''active'')])])
   \<and> \<not> documentMatchesQuery (JObj [(''status'', JStr ''done'')])
       (JObj [(''where'', JObj [(''status'', JStr ''active'')])])
   \<and> classifyChange Update (JObj [(''status'', JStr ''done'')]) (JObj [(''status'', JStr ''active'')])
       (JObj [(''where'', JObj [(''status'', JStr ''active'')])])
     = (Some DeleteChange, JObj [(''status'', JStr ''active'')])
   \<and> classifyChange Update (JObj [(''status'', JStr ''active'')]) (JObj [(''status'', JStr ''done'')])
       (JObj [(''where'', JObj [(''status'', JStr ''active'')])])
     = (Some Upsert, JObj [(''status'', JStr ''active'')])"
proof -
  let ?active = "JObj [(''status'', JStr ''active'')]"
  let ?done = "JObj [(''status'', JStr ''done'')]"
  let ?filter = "JObj [(''where'', ?active)]"
  have m: "documentMatchesQuery ?active ?filter"
    by (simp add: documentMatchesQuery_def keys_length_def evaluateFieldCondition_def
        getNestedValue_def compareValues_def)
  have n: "\<not> documentMatchesQuery ?done ?filter"
    by (simp add: documentMatchesQuery_def keys_length_def evaluateFieldCondition_def
        getNestedValue_def compareValues_def)
  have t: "truthy ?active" "truthy ?done" by simp_all
  have 1: "fst (classifyChange Update ?done ?active ?filter) = Some DeleteChange"
    using classifier_table [of ?done ?active ?filter] m n t by simp
  have 2: "snd (classifyChange Update ?done ?active ?filter) = ?active"
    using classifier_table [of ?done ?active ?filter] 1 by blast
  have 3: "fst (classifyChange Update ?active ?done ?filter) = Some Upsert"
    using classifier_table [of ?active ?done ?filter] m n t by simp
  have 4: "snd (classifyChange Update ?active ?done ?filter) = ?active"
    using m n by (simp add: classifyChange_def)
  show ?thesis using m n 1 2 3 4 by (simp add: prod_eq_iff)
qed

section \<open>Properties of the dependency extraction\<close>


















section \<open>Properties of the query fingerprint\<close>

lemma b64_alphabet: "b64 i \<in> set base64_alphabet"
  unfolding b64_def by (rule nth_mem) (simp add: base64_alphabet_def)

lemma base64_chars: "set (base64 bs) \<subseteq> set base64_alphabet \<union> {CHR ''=''}"
  by (induction bs rule: base64.induct) (auto simp: b64_alphabet)

lemma base64url_no_dot: "CHR ''.'' \<notin> set (base64url bs)"
  using base64_chars [of bs] by (auto simp: base64url_def base64_alphabet_def)

lemma encodeParamsAsJSON_no_dot: "CHR ''.'' \<notin> set (encodeParamsAsJSON stringify sp)"
  by (auto simp: encodeParamsAsJSON_def is_alnum_def)

lemma encodedParams_no_dot: "CHR ''.'' \<notin> set (encodedParams pack stringify sp)"
  by (simp add: encodedParams_def base64url_no_dot encodeParamsAsJSON_no_dot split: option.splits)

text \<open>The text after the last dot of a string, and the text before it, are determined.\<close>

lemma dot_suffix_unique:
  assumes "c1 @ CHR ''.'' # e1 = c2 @ CHR ''.'' # e2"
    and "CHR ''.'' \<notin> set e1" and "CHR ''.'' \<notin> set e2"
  shows "c1 = c2 \<and> e1 = e2"
proof -
  have "rev (c1 @ CHR ''.'' # e1) = rev (c2 @ CHR ''.'' # e2)"
    using assms(1) by simp
  then have "rev e1 @ CHR ''.'' # rev c1 = rev e2 @ CHR ''.'' # rev c2"
    by simp
  then have "takeWhile (\<lambda>c. c \<noteq> CHR ''.'') (rev e1 @ CHR ''.'' # rev c1)
      = takeWhile (\<lambda>c. c \<noteq> CHR ''.'') (rev e2 @ CHR ''.'' # rev c2)" by simp
  then have tw: "takeWhile (\<lambda>c. c \<noteq> CHR ''.'') (rev e1)
      = takeWhile (\<lambda>c. c \<noteq> CHR ''.'') (rev e2)"
    by (simp add: takeWhile_tail)
  have "takeWhile (\<lambda>c. c \<noteq> CHR ''.'') (rev e1) = rev e1"
    "takeWhile (\<lambda>c. c \<noteq> CHR ''.'') (rev e2) = rev e2"
    using assms(2,3) by (auto simp: takeWhile_eq_all_conv)
  with tw have "rev e1 = rev e2" by simp
  then have "e1 = e2" by simp
  with assms(1) show ?thesis by simp
qed

lemma type_prefix_unique:
  "type_string t1 @ CHR ''.'' # r1 = type_string t2 @ CHR ''.'' # r2 \<Longrightarrow> t1 = t2 \<and> r1 = r2"
  by (cases t1; cases t2) auto

lemma stableParams_cong:
  "map_of ps = map_of ps' \<Longrightarrow> stableParams ps = stableParams ps'"
  by (simp add: stableParams_def meaningfulValue_def meaningfulObject_def)

lemma meaningfulValue_append:
  "map_of ps k = None \<Longrightarrow> v = JUndefined \<or> v = JNull \<or> k \<noteq> k' \<Longrightarrow>
     meaningfulValue k' (ps @ [(k, v)]) = meaningfulValue k' ps"
  by (auto simp: meaningfulValue_def map_add_def split: option.splits)

lemma meaningfulObject_append:
  "map_of ps k = None \<Longrightarrow> v = JUndefined \<or> v = JNull \<or> v = JObj [] \<or> k \<noteq> k' \<Longrightarrow>
     meaningfulObject k' (ps @ [(k, v)]) = meaningfulObject k' ps"
  by (auto simp: meaningfulObject_def keys_length_def map_add_def split: option.splits)

text \<open>
  Claim C5, as the fingerprint implements it. The fingerprint does not change when the
  properties of the query are written in another order, nor when a property that is
  \<open>undefined\<close> or \<open>null\<close>, or a \<open>where\<close> or \<open>populate\<close> that is the empty
  object, is added to a query that lacks it. The order of the keys inside \<open>where\<close>
  and \<open>populate\<close> is not part of this statement.
\<close>

theorem createQueryHash_invariant:
  "(distinct (map fst ps) \<and> distinct (map fst ps') \<and> set ps = set ps' \<longrightarrow>
      createQueryHash pack stringify \<lparr>q_type = t, q_collection = c, q_params = ps\<rparr>
      = createQueryHash pack stringify \<lparr>q_type = t, q_collection = c, q_params = ps'\<rparr>)
   \<and> (k \<notin> fst ` set ps \<and>
        (v = JUndefined \<or> v = JNull \<or> (k \<in> {''where'', ''populate''} \<and> v = JObj [])) \<longrightarrow>
      createQueryHash pack stringify \<lparr>q_type = t, q_collection = c, q_params = ps @ [(k, v)]\<rparr>
      = createQueryHash pack stringify \<lparr>q_type = t, q_collection = c, q_params = ps\<rparr>)"
proof (intro conjI impI)
  assume "distinct (map fst ps) \<and> distinct (map fst ps') \<and> set ps = set ps'"
  then have "map_of ps = map_of ps'"
    by (simp add: map_of_inject_set)
  then show "createQueryHash pack stringify \<lparr>q_type = t, q_collection = c, q_params = ps\<rparr>
      = createQueryHash pack stringify \<lparr>q_type = t, q_collection = c, q_params = ps'\<rparr>"
    by (simp add: createQueryHash_def stableParams_cong [of ps ps'])
next
  assume a: "k \<notin> fst ` set ps \<and>
        (v = JUndefined \<or> v = JNull \<or> (k \<in> {''where'', ''populate''} \<and> v = JObj []))"
  then have n: "map_of ps k = None" by (simp add: map_of_eq_None_iff)
  have "stableParams (ps @ [(k, v)]) = stableParams ps"
    unfolding stableParams_def
    using a n by (auto simp: meaningfulValue_append meaningfulObject_append)
  then show "createQueryHash pack stringify \<lparr>q_type = t, q_collection = c, q_params = ps @ [(k, v)]\<rparr>
      = createQueryHash pack stringify \<lparr>q_type = t, q_collection = c, q_params = ps\<rparr>"
    by (simp add: createQueryHash_def)
qed

theorem createQueryHash_invariant_witness:
  "createQueryHash msgpack stringifyUnused
      \<lparr>q_type = Find, q_collection = ''tasks'',
       q_params = [(''limit'', JNum 10), (''sort'', JStr ''-createdAt'')]\<rparr>
   = createQueryHash msgpack stringifyUnused
      \<lparr>q_type = Find, q_collection = ''tasks'',
       q_params = [(''sort'', JStr ''-createdAt''), (''limit'', JNum 10)]\<rparr>
   \<and> createQueryHash msgpack stringifyUnused
      \<lparr>q_type = Find, q_collection = ''tasks'',
       q_params = [(''limit'', JNum 10), (''sort'', JStr ''-createdAt'')] @ [(''where'', JObj [])]\<rparr>
   = createQueryHash msgpack stringifyUnused
      \<lparr>q_type = Find, q_collection = ''tasks'',
       q_params = [(''limit'', JNum 10), (''sort'', JStr ''-createdAt'')]\<rparr>"
  using createQueryHash_invariant
    [of "[(''limit'', JNum 10), (''sort'', JStr ''-createdAt'')]"
        "[(''sort'', JStr ''-createdAt''), (''limit'', JNum 10)]"
        msgpack stringifyUnused Find "''tasks''" "''where''" "JObj []"]
  by auto

text \<open>
  Claim C5 as stated fails: two queries that differ only in the order of the keys of
  their \<open>where\<close> object have different fingerprints.
\<close>

theorem createQueryHash_key_order_counterexample:
  "createQueryHash msgpack stringifyUnused
      \<lparr>q_type = Find, q_collection = ''tasks'',
       q_params = [(''where'', JObj [(''a'', JNum 1), (''b'', JNum 2)])]\<rparr>
   \<noteq> createQueryHash msgpack stringifyUnused
      \<lparr>q_type = Find, q_collection = ''tasks'',
       q_params = [(''where'', JObj [(''b'', JNum 2), (''a'', JNum 1)])]\<rparr>"
  by code_simp

subsection \<open>The base64url text determines the bytes\<close>

lemma base64url_map:
  "base64url buffer = filter (\<lambda>c. c \<noteq> CHR ''='') (map url_char (base64 buffer))"
proof -
  have "(\<lambda>c. if c = CHR ''/'' then CHR ''_'' else c) \<circ> (\<lambda>c. if c = CHR ''+'' then CHR ''-'' else c)
      = url_char"
    by (auto simp: url_char_def fun_eq_iff)
  then show ?thesis
    unfolding base64url_def map_map by simp
qed

lemma url_alphabet_distinct: "distinct (map url_char base64_alphabet)"
  by (simp add: base64_alphabet_def url_char_def)

lemma url_alphabet_no_pad: "CHR ''='' \<notin> set (map url_char base64_alphabet)"
  by (simp add: base64_alphabet_def url_char_def)

lemma length_alphabet: "length base64_alphabet = 64"
  by (simp add: base64_alphabet_def)

lemma url_b64_inject:
  assumes "url_char (b64 i) = url_char (b64 j)" "i < 64" "j < 64"
  shows "i = j"
proof -
  have "(map url_char base64_alphabet ! i = map url_char base64_alphabet ! j) = (i = j)"
    by (rule nth_eq_iff_index_eq [OF url_alphabet_distinct]) (simp_all add: length_alphabet assms)
  then show ?thesis
    using assms by (simp add: b64_def length_alphabet)
qed

lemma url_b64_no_pad: "url_char (b64 i) \<noteq> CHR ''=''"
proof -
  have "url_char (b64 i) \<in> set (map url_char base64_alphabet)"
    unfolding b64_def by (simp add: length_alphabet)
  with url_alphabet_no_pad show ?thesis by metis
qed

lemma base64url_simps:
  "base64url [] = []"
  "base64url [a] = [url_char (b64 (a div 4)), url_char (b64 ((a mod 4) * 16))]"
  "base64url [a, b] =
     [url_char (b64 (a div 4)), url_char (b64 ((a mod 4) * 16 + b div 16)),
      url_char (b64 ((b mod 16) * 4))]"
  "base64url (a # b # c # rest) =
     [url_char (b64 (a div 4)), url_char (b64 ((a mod 4) * 16 + b div 16)),
      url_char (b64 ((b mod 16) * 4 + c div 64)), url_char (b64 (c mod 64))]
     @ base64url rest"
  by (simp_all add: base64url_map url_b64_no_pad) (simp_all add: url_char_def)

lemma nat_div_mod_eq: "(a::nat) div n = b div n \<Longrightarrow> a mod n = b mod n \<Longrightarrow> a = b"
  by (metis div_mult_mod_eq)

lemma sextet_high:
  assumes "(x::nat) * m + y = x' * m + y'" "y < m" "y' < m"
  shows "x = x'"
proof -
  have "(x * m + y) div m = x" "(x' * m + y') div m = x'"
    using assms(2,3) by simp_all
  with assms(1) show ?thesis by simp
qed

lemma sextet_low:
  assumes "(x::nat) * m + y = x' * m + y'" "y < m" "y' < m"
  shows "y = y'"
proof -
  have "(x * m + y) mod m = y" "(x' * m + y') mod m = y'"
    using assms(2,3) by simp_all
  with assms(1) show ?thesis by simp
qed

lemma byte_parts:
  assumes "(a::nat) < 256"
  shows "a div 4 < 64" "a div 16 < 16" "a div 64 < 4"
  using assms by simp_all

lemma sextet_bounds:
  assumes "(a::nat) < 256" "(b::nat) < 256"
  shows "(a mod 4) * 16 + b div 16 < 64" "(a mod 16) * 4 + b div 64 < 64"
    "(a mod 4) * 16 < 64" "(a mod 16) * 4 < 64" "a mod 64 < 64"
proof -
  have 1: "a mod 4 < 4" "a mod 16 < 16" by simp_all
  have 2: "b div 16 < 16" "b div 64 < 4" using assms(2) by simp_all
  show "(a mod 4) * 16 + b div 16 < 64" using 1(1) 2(1) by linarith
  show "(a mod 16) * 4 + b div 64 < 64" using 1(2) 2(2) by linarith
  show "(a mod 4) * 16 < 64" using 1(1) by linarith
  show "(a mod 16) * 4 < 64" using 1(2) by linarith
  show "a mod 64 < 64" by simp
qed

lemma base64url_inject:
  assumes "base64url xs = base64url ys"
    and "\<forall>x \<in> set xs. x < 256" and "\<forall>y \<in> set ys. y < 256"
  shows "xs = ys"
  using assms
proof (induction xs arbitrary: ys rule: base64.induct)
  case 1
  then show ?case by (cases ys rule: base64.cases) (simp_all add: base64url_simps)
next
  case (2 a)
  show ?case
  proof (cases ys rule: base64.cases)
    case (2 a')
    have e: "url_char (b64 (a div 4)) = url_char (b64 (a' div 4))"
      "url_char (b64 ((a mod 4) * 16)) = url_char (b64 ((a' mod 4) * 16))"
      using "2.prems"(1) 2 by (simp_all add: base64url_simps)
    have lt: "a < 256" "a' < 256" using "2.prems"(2,3) 2 by simp_all
    have q1: "a div 4 = a' div 4"
      by (rule url_b64_inject [OF e(1) byte_parts(1) [OF lt(1)] byte_parts(1) [OF lt(2)]])
    have "(a mod 4) * 16 = (a' mod 4) * 16"
      by (rule url_b64_inject [OF e(2) sextet_bounds(3) [OF lt(1) lt(1)] sextet_bounds(3) [OF lt(2) lt(2)]])
    then have "a mod 4 = a' mod 4" by simp
    with q1 have "a = a'" by (rule nat_div_mod_eq)
    with 2 show ?thesis by simp
  qed (use "2.prems"(1) in \<open>simp_all add: base64url_simps\<close>)
next
  case (3 a b)
  show ?case
  proof (cases ys rule: base64.cases)
    case (3 a' b')
    have e: "url_char (b64 (a div 4)) = url_char (b64 (a' div 4))"
      "url_char (b64 ((a mod 4) * 16 + b div 16)) = url_char (b64 ((a' mod 4) * 16 + b' div 16))"
      "url_char (b64 ((b mod 16) * 4)) = url_char (b64 ((b' mod 16) * 4))"
      using "3.prems"(1) 3 by (simp_all add: base64url_simps)
    have lt: "a < 256" "a' < 256" "b < 256" "b' < 256" using "3.prems"(2,3) 3 by simp_all
    have q1: "a div 4 = a' div 4"
      by (rule url_b64_inject [OF e(1) byte_parts(1) [OF lt(1)] byte_parts(1) [OF lt(2)]])
    have q2: "(a mod 4) * 16 + b div 16 = (a' mod 4) * 16 + b' div 16"
      by (rule url_b64_inject [OF e(2) sextet_bounds(1) [OF lt(1) lt(3)] sextet_bounds(1) [OF lt(2) lt(4)]])
    have "(b mod 16) * 4 = (b' mod 16) * 4"
      by (rule url_b64_inject [OF e(3) sextet_bounds(4) [OF lt(3) lt(3)] sextet_bounds(4) [OF lt(4) lt(4)]])
    then have q3: "b mod 16 = b' mod 16" by simp
    have "a mod 4 = a' mod 4"
      by (rule sextet_high [OF q2 byte_parts(2) [OF lt(3)] byte_parts(2) [OF lt(4)]])
    with q1 have a: "a = a'" by (rule nat_div_mod_eq)
    have "b div 16 = b' div 16"
      by (rule sextet_low [OF q2 byte_parts(2) [OF lt(3)] byte_parts(2) [OF lt(4)]])
    then have "b = b'" using q3 by (rule nat_div_mod_eq)
    with a 3 show ?thesis by simp
  qed (use "3.prems"(1) in \<open>simp_all add: base64url_simps\<close>)
next
  case (4 a b c rest)
  show ?case
  proof (cases ys rule: base64.cases)
    case (4 a' b' c' rest')
    have e: "url_char (b64 (a div 4)) = url_char (b64 (a' div 4))"
      "url_char (b64 ((a mod 4) * 16 + b div 16)) = url_char (b64 ((a' mod 4) * 16 + b' div 16))"
      "url_char (b64 ((b mod 16) * 4 + c div 64)) = url_char (b64 ((b' mod 16) * 4 + c' div 64))"
      "url_char (b64 (c mod 64)) = url_char (b64 (c' mod 64))"
      and r: "base64url rest = base64url rest'"
      using "4.prems"(1) 4 by (simp_all add: base64url_simps)
    have lt: "a < 256" "a' < 256" "b < 256" "b' < 256" "c < 256" "c' < 256"
      using "4.prems"(2,3) 4 by simp_all
    have q1: "a div 4 = a' div 4"
      by (rule url_b64_inject [OF e(1) byte_parts(1) [OF lt(1)] byte_parts(1) [OF lt(2)]])
    have q2: "(a mod 4) * 16 + b div 16 = (a' mod 4) * 16 + b' div 16"
      by (rule url_b64_inject [OF e(2) sextet_bounds(1) [OF lt(1) lt(3)] sextet_bounds(1) [OF lt(2) lt(4)]])
    have q3: "(b mod 16) * 4 + c div 64 = (b' mod 16) * 4 + c' div 64"
      by (rule url_b64_inject [OF e(3) sextet_bounds(2) [OF lt(3) lt(5)] sextet_bounds(2) [OF lt(4) lt(6)]])
    have q4: "c mod 64 = c' mod 64"
      by (rule url_b64_inject [OF e(4) sextet_bounds(5) [OF lt(5) lt(5)] sextet_bounds(5) [OF lt(6) lt(6)]])
    have "a mod 4 = a' mod 4"
      by (rule sextet_high [OF q2 byte_parts(2) [OF lt(3)] byte_parts(2) [OF lt(4)]])
    with q1 have a: "a = a'" by (rule nat_div_mod_eq)
    have "b div 16 = b' div 16"
      by (rule sextet_low [OF q2 byte_parts(2) [OF lt(3)] byte_parts(2) [OF lt(4)]])
    moreover have "b mod 16 = b' mod 16"
      by (rule sextet_high [OF q3 byte_parts(3) [OF lt(5)] byte_parts(3) [OF lt(6)]])
    ultimately have b: "b = b'" by (rule nat_div_mod_eq)
    have "c div 64 = c' div 64"
      by (rule sextet_low [OF q3 byte_parts(3) [OF lt(5)] byte_parts(3) [OF lt(6)]])
    then have c: "c = c'" using q4 by (rule nat_div_mod_eq)
    have "rest = rest'"
      using "4.IH" [OF r] "4.prems"(2,3) 4 by simp
    with a b c 4 show ?thesis by simp
  qed (use "4.prems"(1) in \<open>simp_all add: base64url_simps\<close>)
qed

subsection \<open>The entries of \<open>stableParams\<close> are determined one by one\<close>

lemma filter_meaningfulValue:
  "filter (\<lambda>e. fst e = k') (meaningfulValue k ps) = (if k' = k then meaningfulValue k ps else [])"
  by (auto simp: meaningfulValue_def split: option.splits)

lemma filter_meaningfulObject:
  "filter (\<lambda>e. fst e = k') (meaningfulObject k ps) = (if k' = k then meaningfulObject k ps else [])"
  by (auto simp: meaningfulObject_def split: option.splits)

lemma stableParams_entry:
  "filter (\<lambda>e. fst e = ''where'') (stableParams ps) = meaningfulObject ''where'' ps"
  "filter (\<lambda>e. fst e = ''sort'') (stableParams ps) = meaningfulValue ''sort'' ps"
  "filter (\<lambda>e. fst e = ''limit'') (stableParams ps) = meaningfulValue ''limit'' ps"
  "filter (\<lambda>e. fst e = ''populate'') (stableParams ps) = meaningfulObject ''populate'' ps"
  "filter (\<lambda>e. fst e = ''id'') (stableParams ps) = meaningfulValue ''id'' ps"
  by (simp_all add: stableParams_def filter_meaningfulValue filter_meaningfulObject)

lemma stableParams_parts:
  assumes "stableParams ps = stableParams ps'"
  shows "meaningfulObject ''where'' ps = meaningfulObject ''where'' ps'
    \<and> meaningfulValue ''sort'' ps = meaningfulValue ''sort'' ps'
    \<and> meaningfulValue ''limit'' ps = meaningfulValue ''limit'' ps'
    \<and> meaningfulObject ''populate'' ps = meaningfulObject ''populate'' ps'
    \<and> meaningfulValue ''id'' ps = meaningfulValue ''id'' ps'"
  using stableParams_entry [of ps, unfolded assms] stableParams_entry [of ps']
  by simp

text \<open>
  Claim C6, as the fingerprint implements it. Let \<open>pack\<close> return bytes for the
  parameter objects of two queries, and let it be injective on a set of values that
  holds both objects (for an injective encoder: on every set). If the two queries have
  the same fingerprint, they have the same type, the same collection, and the same
  meaningful \<open>where\<close>, \<open>sort\<close>, \<open>limit\<close>, \<open>populate\<close> and \<open>id\<close>.
  Nothing is assumed of the base64url text or of the layout
  \<open>type.collection.encodedParams\<close>, also when the collection contains dots.
  \<open>page\<close> is not part of the fingerprint.
\<close>

theorem createQueryHash_separates:
  assumes hash: "createQueryHash pack stringify q1 = createQueryHash pack stringify q2"
    and packed1: "pack (JObj (stableParams (q_params q1))) = Some buffer1"
    and packed2: "pack (JObj (stableParams (q_params q2))) = Some buffer2"
    and bytes1: "\<forall>x \<in> set buffer1. x < 256"
    and bytes2: "\<forall>x \<in> set buffer2. x < 256"
    and injective: "inj_on pack S"
    and member1: "JObj (stableParams (q_params q1)) \<in> S"
    and member2: "JObj (stableParams (q_params q2)) \<in> S"
  shows "q_type q1 = q_type q2 \<and> q_collection q1 = q_collection q2
    \<and> meaningfulObject ''where'' (q_params q1) = meaningfulObject ''where'' (q_params q2)
    \<and> meaningfulValue ''sort'' (q_params q1) = meaningfulValue ''sort'' (q_params q2)
    \<and> meaningfulValue ''limit'' (q_params q1) = meaningfulValue ''limit'' (q_params q2)
    \<and> meaningfulObject ''populate'' (q_params q1) = meaningfulObject ''populate'' (q_params q2)
    \<and> meaningfulValue ''id'' (q_params q1) = meaningfulValue ''id'' (q_params q2)"
proof -
  let ?e1 = "encodedParams pack stringify (stableParams (q_params q1))"
  let ?e2 = "encodedParams pack stringify (stableParams (q_params q2))"
  have eq: "type_string (q_type q1) @ CHR ''.'' # (q_collection q1 @ CHR ''.'' # ?e1)
      = type_string (q_type q2) @ CHR ''.'' # (q_collection q2 @ CHR ''.'' # ?e2)"
    using hash by (simp add: createQueryHash_def)
  from type_prefix_unique [OF eq]
  have t: "q_type q1 = q_type q2"
    and r: "q_collection q1 @ CHR ''.'' # ?e1 = q_collection q2 @ CHR ''.'' # ?e2"
    by simp_all
  from dot_suffix_unique [OF r encodedParams_no_dot encodedParams_no_dot]
  have c: "q_collection q1 = q_collection q2" and e: "?e1 = ?e2" by simp_all
  from e have "base64url buffer1 = base64url buffer2"
    using packed1 packed2 by (simp add: encodedParams_def)
  then have "buffer1 = buffer2"
    using bytes1 bytes2 by (rule base64url_inject)
  then have "pack (JObj (stableParams (q_params q1))) = pack (JObj (stableParams (q_params q2)))"
    using packed1 packed2 by simp
  then have "JObj (stableParams (q_params q1)) = JObj (stableParams (q_params q2))"
    using injective member1 member2 by (simp add: inj_on_eq_iff)
  then have "stableParams (q_params q1) = stableParams (q_params q2)" by simp
  from stableParams_parts [OF this] t c show ?thesis by simp
qed

theorem createQueryHash_separates_witness:
  "createQueryHash msgpack stringifyUnused
      \<lparr>q_type = Find, q_collection = ''tasks'', q_params = [(''limit'', JNum 10)]\<rparr>
   \<noteq> createQueryHash msgpack stringifyUnused
      \<lparr>q_type = Find, q_collection = ''tasks'', q_params = [(''limit'', JNum 20)]\<rparr>"
proof
  let ?q1 = "\<lparr>q_type = Find, q_collection = ''tasks'', q_params = [(''limit'', JNum 10)]\<rparr>"
  let ?q2 = "\<lparr>q_type = Find, q_collection = ''tasks'', q_params = [(''limit'', JNum 20)]\<rparr>"
  let ?v1 = "JObj (stableParams (q_params ?q1))"
  let ?v2 = "JObj (stableParams (q_params ?q2))"
  assume h: "createQueryHash msgpack stringifyUnused ?q1 = createQueryHash msgpack stringifyUnused ?q2"
  have s1: "stableParams (q_params ?q1) = [(''limit'', JNum 10)]"
    and s2: "stableParams (q_params ?q2) = [(''limit'', JNum 20)]"
    by (simp_all add: stableParams_def meaningfulValue_def meaningfulObject_def)
  have p1: "msgpack ?v1 = Some [129, 165, 108, 105, 109, 105, 116, 10]"
    and p2: "msgpack ?v2 = Some [129, 165, 108, 105, 109, 105, 116, 20]"
    unfolding s1 s2 by (simp_all add: msgpack_def)
  have i: "inj_on msgpack {?v1, ?v2}"
    unfolding s1 s2 by (simp add: msgpack_def)
  have "meaningfulValue ''limit'' (q_params ?q1) = meaningfulValue ''limit'' (q_params ?q2)"
    using createQueryHash_separates [OF h p1 p2 _ _ i] by simp
  then show False
    by (simp add: meaningfulValue_def)
qed

text \<open>
  Claim C6 as stated fails: two queries that differ in \<open>page\<close> have the same
  fingerprint.
\<close>

theorem createQueryHash_page_counterexample:
  "createQueryHash msgpack stringifyUnused
      \<lparr>q_type = Find, q_collection = ''tasks'', q_params = [(''page'', JNum 1)]\<rparr>
   = createQueryHash msgpack stringifyUnused
      \<lparr>q_type = Find, q_collection = ''tasks'', q_params = [(''page'', JNum 2)]\<rparr>"
  by (simp add: createQueryHash_def stableParams_def meaningfulValue_def meaningfulObject_def)

section \<open>Session removal and the dependency index\<close>

text \<open>
  Claim C2 does not hold of the code. A client opens its channel and subscribes to one
  query on \<open>tasks\<close> that populates \<open>assignee\<close>. When the channel closes, the abort
  listener deletes the session but the dependency entry of the query and its
  reverse-index entries stay. \<open>removeSession\<close> on the same session rejects with a
  \<open>TypeError\<close> and changes nothing.
\<close>

theorem session_removal_keeps_dependencies:
  "getSession
     (snd (abortListener
        (openChannel [] ''c1'',
         subscribeToQuery mockPayloadConfig 0 initialState ''c1'' ''q1'' ''tasks''
           (JObj [(''populate'', JObj [(''assignee'', JBool True)])]))
        ''c1'')) ''c1'' = None
   \<and> map_option entry_dependencies
       (map_of (dependencies
          (snd (abortListener
             (openChannel [] ''c1'',
              subscribeToQuery mockPayloadConfig 0 initialState ''c1'' ''q1'' ''tasks''
                (JObj [(''populate'', JObj [(''assignee'', JBool True)])]))
             ''c1''))) ''q1'')
       = Some [''tasks'', ''users'']
   \<and> getQueriesDependingOn
       (snd (abortListener
          (openChannel [] ''c1'',
           subscribeToQuery mockPayloadConfig 0 initialState ''c1'' ''q1'' ''tasks''
             (JObj [(''populate'', JObj [(''assignee'', JBool True)])]))
          ''c1'')) ''users'' = [''q1'']
   \<and> removeSession
       (subscribeToQuery mockPayloadConfig 0 initialState ''c1'' ''q1'' ''tasks''
          (JObj [(''populate'', JObj [(''assignee'', JBool True)])])) ''c1''
       = (Some TypeError,
          subscribeToQuery mockPayloadConfig 0 initialState ''c1'' ''q1'' ''tasks''
            (JObj [(''populate'', JObj [(''assignee'', JBool True)])]))
   \<and> map_option (map queryKey \<circ> queries)
       (getSession
          (subscribeToQuery mockPayloadConfig 0 initialState ''c1'' ''q1'' ''tasks''
             (JObj [(''populate'', JObj [(''assignee'', JBool True)])])) ''c1'')
       = Some [''q1'']"
  by code_simp

text \<open>
  Claim C3 does not hold of the code. The query key \<open>q1\<close> is registered for a query
  on \<open>tasks\<close> that populates \<open>assignee\<close> and \<open>project\<close>, then registered again
  for one that populates \<open>assignee\<close> only. The forward entry is replaced, but the
  reverse index of \<open>projects\<close> still lists \<open>q1\<close>, and still does after the query
  is unregistered.
\<close>

theorem reregistration_leaves_stale_reverse_entry:
  "map_option entry_dependencies
     (map_of (dependencies
        (registerQueryDependencies mockPayloadConfig
           (registerQueryDependencies mockPayloadConfig initialState ''q1'' ''tasks''
              (JObj [(''populate'', JObj [(''assignee'', JBool True), (''project'', JBool True)])]))
           ''q1'' ''tasks'' (JObj [(''populate'', JObj [(''assignee'', JBool True)])]))) ''q1'')
     = Some [''tasks'', ''users'']
   \<and> getQueriesDependingOn
       (registerQueryDependencies mockPayloadConfig
          (registerQueryDependencies mockPayloadConfig initialState ''q1'' ''tasks''
             (JObj [(''populate'', JObj [(''assignee'', JBool True), (''project'', JBool True)])]))
          ''q1'' ''tasks'' (JObj [(''populate'', JObj [(''assignee'', JBool True)])])) ''projects''
     = [''q1'']
   \<and> map_of (dependencies
       (unregisterQueryDependencies
          (registerQueryDependencies mockPayloadConfig
             (registerQueryDependencies mockPayloadConfig initialState ''q1'' ''tasks''
                (JObj [(''populate'', JObj [(''assignee'', JBool True), (''project'', JBool True)])]))
             ''q1'' ''tasks'' (JObj [(''populate'', JObj [(''assignee'', JBool True)])]))
          ''q1'')) ''q1'' = None
   \<and> getQueriesDependingOn
       (unregisterQueryDependencies
          (registerQueryDependencies mockPayloadConfig
             (registerQueryDependencies mockPayloadConfig initialState ''q1'' ''tasks''
                (JObj [(''populate'', JObj [(''assignee'', JBool True), (''project'', JBool True)])]))
             ''q1'' ''tasks'' (JObj [(''populate'', JObj [(''assignee'', JBool True)])]))
          ''q1'') ''projects''
     = [''q1'']"
  by code_simp

section \<open>Properties of the fan-out\<close>

lemma catch_not_rejected: "catch p \<noteq> Rejected reason"
  by (cases p) (simp_all add: catch_def)

text \<open>
  Claim C8. Whatever the three publishers do (fulfil, reject, or never settle), the
  hook returns the operation's result; the promise it leaves behind is never rejected;
  the promise of \<open>publishChanges\<close> is never rejected; each of the three publishers is
  started, on the world its predecessor left, whatever the outcomes of the others; and
  when all three settle, \<open>publishChanges\<close> fulfils and has logged exactly the
  publishers that rejected.
\<close>

theorem fan_out_never_fails_the_mutation:
  "returned (afterOperation inc cnt cross changedCollection result operation originalDoc w) = result
   \<and> detached (afterOperation inc cnt cross changedCollection result operation originalDoc w)
       \<noteq> Some (Rejected reason)
   \<and> promise (publishChanges inc cnt cross changedCollection opType doc originalDoc w) \<noteq> Rejected reason
   \<and> world (publishChanges inc cnt cross changedCollection opType doc originalDoc w)
       = snd (cross changedCollection
                (if truthy (optionalId doc) then optionalId doc else JStr ''unknown'')
                doc originalDoc opType
                (snd (cnt changedCollection opType doc originalDoc
                        (snd (inc changedCollection opType doc originalDoc w)))))
   \<and> (operationType operation = Some opType \<longrightarrow>
        after (afterOperation inc cnt cross changedCollection result operation originalDoc w)
        = world (publishChanges inc cnt cross changedCollection opType result originalDoc w))
   \<and> (fst (inc changedCollection opType doc originalDoc w) \<noteq> Pending
        \<and> fst (cnt changedCollection opType doc originalDoc
                  (snd (inc changedCollection opType doc originalDoc w))) \<noteq> Pending
        \<and> fst (cross changedCollection
                  (if truthy (optionalId doc) then optionalId doc else JStr ''unknown'')
                  doc originalDoc opType
                  (snd (cnt changedCollection opType doc originalDoc
                          (snd (inc changedCollection opType doc originalDoc w))))) \<noteq> Pending
        \<longrightarrow>
        promise (publishChanges inc cnt cross changedCollection opType doc originalDoc w) = Fulfilled
        \<and> failures (publishChanges inc cnt cross changedCollection opType doc originalDoc w)
            = rejectedNames
                [(''INCREMENTAL'', fst (inc changedCollection opType doc originalDoc w)),
                 (''COUNT'', fst (cnt changedCollection opType doc originalDoc
                                   (snd (inc changedCollection opType doc originalDoc w)))),
                 (''SMART-CROSS-COLLECTION'',
                  fst (cross changedCollection
                         (if truthy (optionalId doc) then optionalId doc else JStr ''unknown'')
                         doc originalDoc opType
                         (snd (cnt changedCollection opType doc originalDoc
                                 (snd (inc changedCollection opType doc originalDoc w))))))])"
proof -
  let ?docId = "if truthy (optionalId doc) then optionalId doc else JStr ''unknown''"
  let ?r1 = "inc changedCollection opType doc originalDoc w"
  let ?r2 = "cnt changedCollection opType doc originalDoc (snd ?r1)"
  let ?r3 = "cross changedCollection ?docId doc originalDoc opType (snd ?r2)"
  let ?p = "publishChanges inc cnt cross changedCollection opType doc originalDoc w"
  let ?h = "afterOperation inc cnt cross changedCollection result operation originalDoc w"
  have 1: "returned ?h = result"
    by (simp add: afterOperation_def Let_def split: option.splits)
  have 2: "detached ?h \<noteq> Some (Rejected reason)"
    by (simp add: afterOperation_def Let_def catch_not_rejected split: option.splits)
  have 3: "promise ?p \<noteq> Rejected reason"
    by (simp add: publishChanges_def Let_def)
  have 4: "world ?p = snd ?r3"
    by (simp add: publishChanges_def Let_def)
  have 5: "after ?h = world (publishChanges inc cnt cross changedCollection opType result originalDoc w)"
    if "operationType operation = Some opType"
    using that by (auto simp: afterOperation_def operationType_def Let_def split: if_splits)
  have 6: "promise ?p = Fulfilled
      \<and> failures ?p = rejectedNames
            [(''INCREMENTAL'', fst ?r1), (''COUNT'', fst ?r2), (''SMART-CROSS-COLLECTION'', fst ?r3)]"
    if "fst ?r1 \<noteq> Pending \<and> fst ?r2 \<noteq> Pending \<and> fst ?r3 \<noteq> Pending"
    using that by (simp add: publishChanges_def Let_def)
  from 1 2 3 4 5 6 show ?thesis by blast
qed

text \<open>
  A world that records which publishers were started: the incremental publisher
  rejects, the count publisher never settles, and the cross-collection publisher still
  runs; the hook returns the document of the update.
\<close>

theorem fan_out_never_fails_the_mutation_witness:
  "operationType ''updateByID'' = Some Update
   \<and> afterOperation
       (\<lambda>c operation doc originalDoc w. (Rejected ''channel closed'', w @ [''incremental'']))
       (\<lambda>c operation doc originalDoc w. (Pending, w @ [''count'']))
       (\<lambda>c docId doc originalDoc operation w. (Fulfilled, w @ [''cross'']))
       ''tasks'' (JObj [(''id'', JStr ''t1'')]) ''updateByID'' JUndefined []
     = \<lparr>returned = JObj [(''id'', JStr ''t1'')], detached = Some Pending,
        after = [''incremental'', ''count'', ''cross'']\<rparr>"
proof -
  let ?inc = "\<lambda>(c::string) (operation::operation) (doc::json) (originalDoc::json) (w::string list).
      (Rejected ''channel closed'', w @ [''incremental''])"
  let ?cnt = "\<lambda>(c::string) (operation::operation) (doc::json) (originalDoc::json) (w::string list).
      (Pending, w @ [''count''])"
  let ?cross = "\<lambda>(c::string) (docId::json) (doc::json) (originalDoc::json) (operation::operation)
      (w::string list). (Fulfilled, w @ [''cross''])"
  let ?doc = "JObj [(''id'', JStr ''t1'')]"
  let ?h = "afterOperation ?inc ?cnt ?cross ''tasks'' ?doc ''updateByID'' JUndefined []"
  have t: "operationType ''updateByID'' = Some Update"
    by (simp add: operationType_def)
  have r: "returned ?h = ?doc" and a: "after ?h = [''incremental'', ''count'', ''cross'']"
    using fan_out_never_fails_the_mutation
      [of ?inc ?cnt ?cross "''tasks''" ?doc "''updateByID''" JUndefined "[]" "''x''" Update ?doc] t
    by simp_all
  have d: "detached ?h = Some Pending"
    by (simp add: afterOperation_def operationType_def publishChanges_def catch_def)
  show ?thesis using t r a d by simp
qed

end
